theory Spec2Isabelle
  imports Complex_Main "HOL-Library.AList"
begin

section \<open>Sentinels, faults and warnings\<close>

text \<open>
  The module \<^verbatim>\<open>dask_searchcv/methods.py\<close> works on dynamically typed Python values.
  Two singletons mark special values: \<^verbatim>\<open>MISSING\<close> (an absent parameter) and
  \<^verbatim>\<open>FIT_FAILURE\<close> (a fit that raised and was suppressed). A value that may be the
  failure singleton is a \<open>res\<close>; a parameter value that may be missing is a \<open>param\<close>.
\<close>

datatype 'a res = FIT_FAILURE | Ok 'a

datatype 'v param = MISSING | Given 'v

text \<open>
  Exceptions are values. Every constructor stands for an instance of a subclass of
  Python's \<^verbatim>\<open>Exception\<close> (what \<^verbatim>\<open>except Exception\<close> catches); \<open>Fault\<close> is any
  exception raised inside an external collaborator (an estimator, a scorer), named by
  its message.
\<close>

datatype error =
    IndexError
  | TypeError
  | ValueError string
  | ZeroDivisionError
  | KeyError string
  | NotANumber
  | Fault string

text \<open>
  The error policy \<^verbatim>\<open>error_score\<close> is the string \<^verbatim>\<open>'raise'\<close> or a number.
\<close>

datatype error_score = Raise | Numeric real

text \<open>
  \<^verbatim>\<open>warn_fit_failure(error_score, e)\<close> emits one \<^verbatim>\<open>FitFailedWarning\<close> whose message
  embeds the error score and the exception. Emitted warnings are collected in a list.
\<close>

datatype warning = FitFailedWarning real error

definition warn_fit_failure :: "real \<Rightarrow> error \<Rightarrow> warning list" where
  "warn_fit_failure error_score e = [FitFailedWarning error_score e]"

text \<open>Python's \<^verbatim>\<open>any(p(s) for s in xs)\<close>.\<close>

primrec py_any :: "('a \<Rightarrow> bool) \<Rightarrow> 'a list \<Rightarrow> bool" where
  "py_any p [] = False"
| "py_any p (x # xs) = (if p x then True else py_any p xs)"

section \<open>Composite reconstruction\<close>

text \<open>
  \<^verbatim>\<open>Pipeline\<close> and \<^verbatim>\<open>FeatureUnion\<close> are constructors of the external model library;
  they are parameters of the reconstruction functions.
  \<^verbatim>\<open>
  def pipeline(names, steps):
      if any(s is FIT_FAILURE for s in steps):
          return FIT_FAILURE
      return Pipeline(list(zip(names, steps)))

  def feature_union(names, steps, weights):
      if any(s is FIT_FAILURE for s in steps):
          return FIT_FAILURE
      return FeatureUnion(list(zip(names, steps)),
                          transformer_weights=weights)
  \<close>
\<close>

definition pipeline ::
  "((string \<times> 'e res) list \<Rightarrow> 'e) \<Rightarrow> string list \<Rightarrow> 'e res list \<Rightarrow> 'e res" where
  "pipeline Pipeline names steps =
     (if py_any (\<lambda>s. s = FIT_FAILURE) steps then FIT_FAILURE
      else Ok (Pipeline (zip names steps)))"

definition feature_union ::
  "((string \<times> 'e res) list \<Rightarrow> 'w \<Rightarrow> 'e) \<Rightarrow> string list \<Rightarrow> 'e res list \<Rightarrow> 'w \<Rightarrow> 'e res" where
  "feature_union FeatureUnion names steps weights =
     (if py_any (\<lambda>s. s = FIT_FAILURE) steps then FIT_FAILURE
      else Ok (FeatureUnion (zip names steps) weights))"

section \<open>Scoring\<close>

text \<open>
  The scorer is an external capability called as \<^verbatim>\<open>scorer(est, X)\<close> when \<^verbatim>\<open>y is None\<close>
  and as \<^verbatim>\<open>scorer(est, X, y)\<close> otherwise; it may raise. In the model it takes the
  labels as an option.
  \<^verbatim>\<open>
  def _score(est, X, y, scorer):
      if est is FIT_FAILURE:
          return FIT_FAILURE
      return scorer(est, X) if y is None else scorer(est, X, y)

  def score(est, X_test, y_test, X_train, y_train, scorer):
      test_score = _score(est, X_test, y_test, scorer)
      if X_train is None:
          return test_score
      train_score = _score(est, X_train, y_train, scorer)
      return test_score, train_score
  \<close>
  A score record is a lone test score or a (test, train) pair.
\<close>

datatype score_record = Single "real res" | Both "real res" "real res"

definition p_score ::
  "'e res \<Rightarrow> 'x \<Rightarrow> 'y option \<Rightarrow> ('e \<Rightarrow> 'x \<Rightarrow> 'y option \<Rightarrow> error + real) \<Rightarrow> error + real res" where
  "p_score est X y scorer =
     (case est of
        FIT_FAILURE \<Rightarrow> Inr FIT_FAILURE
      | Ok e \<Rightarrow> (case scorer e X y of Inl err \<Rightarrow> Inl err | Inr s \<Rightarrow> Inr (Ok s)))"

definition score ::
  "'e res \<Rightarrow> 'x \<Rightarrow> 'y option \<Rightarrow> 'x option \<Rightarrow> 'y option \<Rightarrow>
   ('e \<Rightarrow> 'x \<Rightarrow> 'y option \<Rightarrow> error + real) \<Rightarrow> error + score_record" where
  "score est X_test y_test X_train y_train scorer =
     (case p_score est X_test y_test scorer of
        Inl err \<Rightarrow> Inl err
      | Inr test_score \<Rightarrow>
          (case X_train of
             None \<Rightarrow> Inr (Single test_score)
           | Some Xtr \<Rightarrow>
               (case p_score est Xtr y_train scorer of
                  Inl err \<Rightarrow> Inl err
                | Inr train_score \<Rightarrow> Inr (Both test_score train_score))))"

section \<open>Parameter application, fit and fit-transform\<close>

text \<open>
  A Python \<^verbatim>\<open>dict\<close> built from a sequence of pairs: a later pair overrides the value of
  an earlier pair with the same key, which keeps its position.
\<close>

definition py_dict :: "('k \<times> 'v) list \<Rightarrow> ('k \<times> 'v) list" where
  "py_dict kvs = fold (\<lambda>(k, v) d. AList.update k v d) kvs []"

text \<open>
  The estimator is an opaque capability bundle of the external model library, and
  \<^verbatim>\<open>copy_estimator\<close> comes from this package's \<^verbatim>\<open>utils\<close> module. They are parameters
  of the model; each may raise. \<open>est_fit\<close> returns the estimator as \<^verbatim>\<open>est.fit\<close> left it
  (the call mutates it in place), \<open>est_fit_transform\<close> that estimator and the
  transformed data, and \<open>has_fit_transform\<close> is \<^verbatim>\<open>hasattr(est, 'fit_transform')\<close>.
\<close>

datatype ('e, 'x, 'y, 'v, 'o) estimator_ops = EstimatorOps
  (copy_estimator: "'e \<Rightarrow> error + 'e")
  (est_set_params: "'e \<Rightarrow> (string \<times> 'v) list \<Rightarrow> error + 'e")
  (est_fit: "'e \<Rightarrow> 'x \<Rightarrow> 'y \<Rightarrow> (string \<times> 'o) list \<Rightarrow> error + 'e")
  (has_fit_transform: "'e \<Rightarrow> bool")
  (est_fit_transform: "'e \<Rightarrow> 'x \<Rightarrow> 'y \<Rightarrow> (string \<times> 'o) list \<Rightarrow> error + 'e \<times> 'x")
  (est_transform: "'e \<Rightarrow> 'x \<Rightarrow> error + 'x")

text \<open>
  \<^verbatim>\<open>
  def set_params(est, fields=None, params=None, copy=True):
      if copy:
          est = copy_estimator(est)
      if fields is None:
          return est
      params = {f: p for (f, p) in zip(fields, params) if p is not MISSING}
      with SET_PARAMS_LOCK:
          return est.set_params(**params)
  \<close>
  \<^verbatim>\<open>zip(fields, None)\<close> raises \<^verbatim>\<open>TypeError\<close>. The lock serialises concurrent callers and
  has no effect on one call's result.
\<close>

definition sparse_params :: "string list \<Rightarrow> 'v param list \<Rightarrow> (string \<times> 'v) list" where
  "sparse_params fields params =
     py_dict (List.map_filter
       (\<lambda>(f, p). case p of MISSING \<Rightarrow> None | Given v \<Rightarrow> Some (f, v)) (zip fields params))"

definition set_params ::
  "('e, 'x, 'y, 'v, 'o) estimator_ops \<Rightarrow> 'e \<Rightarrow> string list option \<Rightarrow> 'v param list option \<Rightarrow>
   bool \<Rightarrow> error + 'e" where
  "set_params ops est fields params copy =
     (case (if copy then copy_estimator ops est else Inr est) of
        Inl ex \<Rightarrow> Inl ex
      | Inr est1 \<Rightarrow>
          (case fields of
             None \<Rightarrow> Inr est1
           | Some fs \<Rightarrow>
               (case params of
                  None \<Rightarrow> Inl TypeError
                | Some ps \<Rightarrow> est_set_params ops est1 (sparse_params fs ps))))"

text \<open>
  \<^verbatim>\<open>
  def fit(est, X, y, error_score='raise', fields=None, params=None,
          fit_params=None):
      if est is FIT_FAILURE or X is FIT_FAILURE:
          return FIT_FAILURE
      if not fit_params:
          fit_params = {}
      try:
          est = set_params(est, fields, params)
          est.fit(X, y, **fit_params)
      except Exception as e:
          if error_score == 'raise':
              raise
          warn_fit_failure(error_score, e)
          est = FIT_FAILURE
      return est
  \<close>
  The result of the model is the exception raised, or the value returned together with
  the warnings emitted. \<open>fit_attempt\<close> is the body of the \<^verbatim>\<open>try\<close> block.
\<close>

definition fit_params_or_empty :: "(string \<times> 'o) list option \<Rightarrow> (string \<times> 'o) list" where
  "fit_params_or_empty fit_params = (case fit_params of None \<Rightarrow> [] | Some d \<Rightarrow> d)"

definition fit_attempt ::
  "('e, 'x, 'y, 'v, 'o) estimator_ops \<Rightarrow> 'e \<Rightarrow> 'x \<Rightarrow> 'y \<Rightarrow> string list option \<Rightarrow>
   'v param list option \<Rightarrow> (string \<times> 'o) list \<Rightarrow> error + 'e" where
  "fit_attempt ops est X y fields params fit_params =
     (case set_params ops est fields params True of
        Inl ex \<Rightarrow> Inl ex
      | Inr est1 \<Rightarrow> est_fit ops est1 X y fit_params)"

definition fit ::
  "('e, 'x, 'y, 'v, 'o) estimator_ops \<Rightarrow> 'e res \<Rightarrow> 'x res \<Rightarrow> 'y \<Rightarrow> error_score \<Rightarrow>
   string list option \<Rightarrow> 'v param list option \<Rightarrow> (string \<times> 'o) list option \<Rightarrow>
   error + 'e res \<times> warning list" where
  "fit ops est X y error_score fields params fit_params =
     (case est of
        FIT_FAILURE \<Rightarrow> Inr (FIT_FAILURE, [])
      | Ok e \<Rightarrow>
          (case X of
             FIT_FAILURE \<Rightarrow> Inr (FIT_FAILURE, [])
           | Ok x \<Rightarrow>
               (case fit_attempt ops e x y fields params (fit_params_or_empty fit_params) of
                  Inr est1 \<Rightarrow> Inr (Ok est1, [])
                | Inl ex \<Rightarrow>
                    (case error_score of
                       Raise \<Rightarrow> Inl ex
                     | Numeric r \<Rightarrow> Inr (FIT_FAILURE, warn_fit_failure r ex)))))"

text \<open>
  \<^verbatim>\<open>
  def fit_transform(est, X, y, error_score='raise', fields=None, params=None,
                    fit_params=None):
      if est is FIT_FAILURE or X is FIT_FAILURE:
          return FIT_FAILURE, FIT_FAILURE
      if not fit_params:
          fit_params = {}
      try:
          est = set_params(est, fields, params)
          if hasattr(est, 'fit_transform'):
              Xt = est.fit_transform(X, y, **fit_params)
          else:
              est.fit(X, y, **fit_params)
              Xt = est.transform(X)
      except Exception as e:
          if error_score == 'raise':
              raise
          warn_fit_failure(error_score, e)
          est = Xt = FIT_FAILURE
      return est, Xt
  \<close>
\<close>

definition fit_transform_attempt ::
  "('e, 'x, 'y, 'v, 'o) estimator_ops \<Rightarrow> 'e \<Rightarrow> 'x \<Rightarrow> 'y \<Rightarrow> string list option \<Rightarrow>
   'v param list option \<Rightarrow> (string \<times> 'o) list \<Rightarrow> error + 'e \<times> 'x" where
  "fit_transform_attempt ops est X y fields params fit_params =
     (case set_params ops est fields params True of
        Inl ex \<Rightarrow> Inl ex
      | Inr est1 \<Rightarrow>
          (if has_fit_transform ops est1 then est_fit_transform ops est1 X y fit_params
           else
             (case est_fit ops est1 X y fit_params of
                Inl ex \<Rightarrow> Inl ex
              | Inr est2 \<Rightarrow>
                  (case est_transform ops est2 X of
                     Inl ex \<Rightarrow> Inl ex
                   | Inr Xt \<Rightarrow> Inr (est2, Xt)))))"

definition fit_transform ::
  "('e, 'x, 'y, 'v, 'o) estimator_ops \<Rightarrow> 'e res \<Rightarrow> 'x res \<Rightarrow> 'y \<Rightarrow> error_score \<Rightarrow>
   string list option \<Rightarrow> 'v param list option \<Rightarrow> (string \<times> 'o) list option \<Rightarrow>
   error + ('e res \<times> 'x res) \<times> warning list" where
  "fit_transform ops est X y error_score fields params fit_params =
     (case est of
        FIT_FAILURE \<Rightarrow> Inr ((FIT_FAILURE, FIT_FAILURE), [])
      | Ok e \<Rightarrow>
          (case X of
             FIT_FAILURE \<Rightarrow> Inr ((FIT_FAILURE, FIT_FAILURE), [])
           | Ok x \<Rightarrow>
               (case fit_transform_attempt ops e x y fields params
                       (fit_params_or_empty fit_params) of
                  Inr (est1, Xt) \<Rightarrow> Inr ((Ok est1, Ok Xt), [])
                | Inl ex \<Rightarrow>
                    (case error_score of
                       Raise \<Rightarrow> Inl ex
                     | Numeric r \<Rightarrow> Inr ((FIT_FAILURE, FIT_FAILURE), warn_fit_failure r ex)))))"

text \<open>
  A small concrete estimator, used to run the fit functions on explicit inputs: cloning
  succeeds, setting parameters is refused on estimator 0, and fitting on the data 0 raises.
\<close>

definition demo_ops :: "(nat, nat, nat, nat, nat) estimator_ops" where
  "demo_ops = EstimatorOps
     (\<lambda>e. Inr e)
     (\<lambda>e ps. if e = 0 then Inl (ValueError ''Invalid parameter'') else Inr (e + length ps))
     (\<lambda>e X y fp. if X = 0 then Inl (Fault ''empty data'') else Inr (e + X))
     (\<lambda>e. False)
     (\<lambda>e X y fp. Inr (e, X))
     (\<lambda>e X. Inr X)"

section \<open>Concatenating the outputs of a feature union\<close>

text \<open>
  A feature block is a two-dimensional numeric array, dense (a numpy array) or sparse (a
  scipy sparse matrix). Its content is a matrix: the number of columns and the rows,
  each row of that length; the shape is \<open>(nrows, ncols)\<close>. The storage format does not
  change the numbers.
\<close>

datatype matrix = Matrix (ncols: nat) (rows: "real list list")

definition nrows :: "matrix \<Rightarrow> nat" where
  "nrows m = length (rows m)"

datatype block = Dense (mat: matrix) | Sparse (mat: matrix)

text \<open>\<^verbatim>\<open>scipy.sparse.issparse(f)\<close>.\<close>

definition issparse :: "block \<Rightarrow> bool" where
  "issparse X = (case X of Dense m \<Rightarrow> False | Sparse m \<Rightarrow> True)"

text \<open>\<^verbatim>\<open>X * w\<close> for a number \<open>w\<close>: every entry is multiplied by \<open>w\<close>, in both formats.\<close>

definition scale_matrix :: "matrix \<Rightarrow> real \<Rightarrow> matrix" where
  "scale_matrix m w = Matrix (ncols m) (map (map (\<lambda>v. v * w)) (rows m))"

definition scale :: "block \<Rightarrow> real \<Rightarrow> block" where
  "scale X w = (case X of Dense m \<Rightarrow> Dense (scale_matrix m w) | Sparse m \<Rightarrow> Sparse (scale_matrix m w))"

text \<open>\<^verbatim>\<open>np.zeros((n, k))\<close>.\<close>

definition np_zeros :: "nat \<Rightarrow> nat \<Rightarrow> block" where
  "np_zeros n k = Dense (Matrix k (replicate n (replicate k 0)))"

text \<open>
  \<^verbatim>\<open>np.hstack\<close> and \<^verbatim>\<open>sparse.hstack\<close> put two-dimensional blocks side by side. Both raise
  \<^verbatim>\<open>ValueError\<close> on an empty sequence and when the blocks disagree in their number of
  rows.
\<close>

definition hstack :: "matrix list \<Rightarrow> error + matrix" where
  "hstack ms =
     (case ms of
        [] \<Rightarrow> Inl (ValueError ''need at least one array to concatenate'')
      | m # _ \<Rightarrow>
          (if list_all (\<lambda>k. nrows k = nrows m) ms
           then Inr (Matrix (sum_list (map ncols ms))
                      (map (\<lambda>i. concat (map (\<lambda>k. rows k ! i) ms)) [0..<nrows m]))
           else Inl (ValueError ''all the input array dimensions except for the concatenation axis must match exactly'')))"

text \<open>
  \<^verbatim>\<open>
  def feature_union_concat(Xs, nsamples, weights):
      if any(x is FIT_FAILURE for x in Xs):
          return FIT_FAILURE
      Xs = [X if w is None else X * w for X, w in zip(Xs, weights)
            if X is not None]
      if not Xs:
          return np.zeros((nsamples, 0))
      if any(sparse.issparse(f) for f in Xs):
          return sparse.hstack(Xs).tocsr()
      return np.hstack(Xs)
  \<close>
  A branch output is \<open>FIT_FAILURE\<close>, \<^verbatim>\<open>None\<close> or a block; a weight is \<^verbatim>\<open>None\<close> or a number.
  \<open>weighted_branches\<close> is the list comprehension; it is reached only when no output is
  \<open>FIT_FAILURE\<close>.
\<close>

definition weighted_branches :: "block option res list \<Rightarrow> real option list \<Rightarrow> block list" where
  "weighted_branches Xs weights =
     List.map_filter
       (\<lambda>(X, w). case X of
            FIT_FAILURE \<Rightarrow> None
          | Ok None \<Rightarrow> None
          | Ok (Some b) \<Rightarrow> Some (case w of None \<Rightarrow> b | Some k \<Rightarrow> scale b k))
       (zip Xs weights)"

definition feature_union_concat ::
  "block option res list \<Rightarrow> nat \<Rightarrow> real option list \<Rightarrow> error + block res" where
  "feature_union_concat Xs nsamples weights =
     (if py_any (\<lambda>x. x = FIT_FAILURE) Xs then Inr FIT_FAILURE
      else
        (let Xs1 = weighted_branches Xs weights in
         if Xs1 = [] then Inr (Ok (np_zeros nsamples 0))
         else if py_any issparse Xs1 then
           (case hstack (map mat Xs1) of Inl ex \<Rightarrow> Inl ex | Inr m \<Rightarrow> Inr (Ok (Sparse m)))
         else
           (case hstack (map mat Xs1) of Inl ex \<Rightarrow> Inl ex | Inr m \<Rightarrow> Inr (Ok (Dense m)))))"

text \<open>
  The surviving branches in the words of the specification: the non-null outputs, each
  with the weight at its position.
\<close>

definition surviving :: "block option res list \<Rightarrow> real option list \<Rightarrow> (block \<times> real option) list" where
  "surviving Xs weights =
     List.map_filter
       (\<lambda>(X, w). case X of Ok (Some b) \<Rightarrow> Some (b, w) | _ \<Rightarrow> None) (zip Xs weights)"

definition weigh :: "real option \<Rightarrow> real \<Rightarrow> real" where
  "weigh w v = (case w of None \<Rightarrow> v | Some k \<Rightarrow> v * k)"

section \<open>The fold cache\<close>

text \<open>
  A fold is a pair (train index-set, test index-set); an index-set is a sequence of
  integer positions or a boolean mask. \<open>index_count\<close> is the number of samples an
  index-set selects.
\<close>

datatype index_set = Positions "int list" | Mask "bool list"

definition mask_positions :: "bool list \<Rightarrow> int list" where
  "mask_positions bs = map (\<lambda>i. int i) (filter (\<lambda>i. bs ! i) [0..<length bs])"

definition index_count :: "index_set \<Rightarrow> nat" where
  "index_count s = (case s of Positions ps \<Rightarrow> length ps | Mask bs \<Rightarrow> length (filter (\<lambda>b. b) bs))"

text \<open>
  Python's \<^verbatim>\<open>xs[i]\<close> on a list or a tuple: a negative index counts from the end, an
  index outside \<open>[-len, len)\<close> raises \<^verbatim>\<open>IndexError\<close>. numpy reads an integer index the
  same way.
\<close>

definition norm_index :: "nat \<Rightarrow> int \<Rightarrow> nat option" where
  "norm_index n i =
     (if 0 \<le> i \<and> i < int n then Some (nat i)
      else if - int n \<le> i \<and> i < 0 then Some (nat (int n + i))
      else None)"

definition py_getitem :: "'a list \<Rightarrow> int \<Rightarrow> error + 'a" where
  "py_getitem xs i = (case norm_index (length xs) i of None \<Rightarrow> Inl IndexError | Some k \<Rightarrow> Inr (xs ! k))"

text \<open>
  The data handed to the cache. A container is a plain Python sequence or a scalar
  (neither has a \<^verbatim>\<open>shape\<close> attribute), a one-dimensional array or a two-dimensional
  array. \<open>np_shape\<close> is \<^verbatim>\<open>X.shape\<close> when \<^verbatim>\<open>hasattr(X, "shape")\<close>.
\<close>

datatype container = Scalar real | PySeq "real list" | Array1 "real list" | Array2 matrix

definition np_shape :: "container \<Rightarrow> nat list option" where
  "np_shape X =
     (case X of
        Scalar v \<Rightarrow> None
      | PySeq xs \<Rightarrow> None
      | Array1 xs \<Rightarrow> Some [length xs]
      | Array2 m \<Rightarrow> Some [nrows m, ncols m])"

text \<open>
  \<^verbatim>\<open>X[np.ix_(rows, cols)]\<close>. \<^verbatim>\<open>np.ix_\<close> turns a boolean mask into the positions of its
  true entries; the result holds, for the i-th row index and the j-th column index, the
  entry of \<open>X\<close> at that row and column. An index out of range raises \<^verbatim>\<open>IndexError\<close>,
  as do two indices into a one-dimensional array; a plain sequence or a scalar cannot
  be indexed by a tuple (\<^verbatim>\<open>TypeError\<close>).
\<close>

definition ix_positions :: "index_set \<Rightarrow> int list" where
  "ix_positions s = (case s of Positions ps \<Rightarrow> ps | Mask bs \<Rightarrow> mask_positions bs)"

definition norm_indices :: "nat \<Rightarrow> int list \<Rightarrow> nat list option" where
  "norm_indices n ps =
     (if list_all (\<lambda>i. norm_index n i \<noteq> None) ps then Some (map (\<lambda>i. the (norm_index n i)) ps)
      else None)"

definition np_getitem_ix :: "container \<Rightarrow> index_set \<Rightarrow> index_set \<Rightarrow> error + container" where
  "np_getitem_ix X rs cs =
     (case X of
        Scalar v \<Rightarrow> Inl TypeError
      | PySeq xs \<Rightarrow> Inl TypeError
      | Array1 xs \<Rightarrow> Inl IndexError
      | Array2 m \<Rightarrow>
          (case norm_indices (nrows m) (ix_positions rs) of
             None \<Rightarrow> Inl IndexError
           | Some ri \<Rightarrow>
               (case norm_indices (ncols m) (ix_positions cs) of
                  None \<Rightarrow> Inl IndexError
                | Some ci \<Rightarrow>
                    Inr (Array2 (Matrix (length ci) (map (\<lambda>r. map (\<lambda>c. rows m ! r ! c) ci) ri))))))"

text \<open>
  \<^verbatim>\<open>
  class CVCache(object):
      def __init__(self, splits, pairwise=False, cache=True):
          self.splits = splits
          self.pairwise = pairwise
          self.cache = {} if cache else None
  \<close>
  The memoization table is a dictionary, or \<^verbatim>\<open>None\<close> when memoization is off. Its keys
  are the tuples \<^verbatim>\<open>(n, is_x, is_train)\<close> of \<^verbatim>\<open>_extract\<close> and \<^verbatim>\<open>_extract_pairwise\<close> and the
  pairs \<^verbatim>\<open>(n, key)\<close> of \<^verbatim>\<open>extract_param\<close>; a triple never equals a pair.
\<close>

datatype cache_key = Slot int bool bool | ParamSlot int string

datatype CVCache = CVCache
  (splits: "(index_set \<times> index_set) list")
  (pairwise: bool)
  (cache: "(cache_key \<times> container) list option")

definition CVCache_init :: "(index_set \<times> index_set) list \<Rightarrow> bool \<Rightarrow> bool \<Rightarrow> CVCache" where
  "CVCache_init splits0 pairwise0 cache0 = CVCache splits0 pairwise0 (if cache0 then Some [] else None)"

text \<open>
  \<open>cache_lookup\<close> is \<^verbatim>\<open>self.cache[k]\<close> guarded by
  \<^verbatim>\<open>self.cache is not None and k in self.cache\<close>; \<open>cache_store\<close> is the guarded
  \<^verbatim>\<open>self.cache[k] = v\<close>.
\<close>

definition cache_lookup :: "CVCache \<Rightarrow> cache_key \<Rightarrow> container option" where
  "cache_lookup c k = (case cache c of None \<Rightarrow> None | Some d \<Rightarrow> map_of d k)"

definition cache_store :: "CVCache \<Rightarrow> cache_key \<Rightarrow> container \<Rightarrow> CVCache" where
  "cache_store c k v =
     (case cache c of
        None \<Rightarrow> c
      | Some d \<Rightarrow> CVCache (splits c) (pairwise c) (Some (AList.update k v d)))"

text \<open>
  \<^verbatim>\<open>safe_indexing\<close> belongs to the external library; it is a parameter \<open>si\<close> of the
  model, takes the container (\<^verbatim>\<open>None\<close> included) and an index-set, and may raise.
  \<^verbatim>\<open>
      def _extract(self, X, y, n, is_x=True, is_train=True):
          if self.cache is not None and (n, is_x, is_train) in self.cache:
              return self.cache[n, is_x, is_train]

          inds = self.splits[n][0] if is_train else self.splits[n][1]
          result = safe_indexing(X if is_x else y, inds)

          if self.cache is not None:
              self.cache[n, is_x, is_train] = result
          return result
  \<close>
  Every operation returns the exception raised, or its value and the cache after the
  call.
\<close>

definition p_extract ::
  "(container option \<Rightarrow> index_set \<Rightarrow> error + container) \<Rightarrow> CVCache \<Rightarrow> container \<Rightarrow>
   container option \<Rightarrow> int \<Rightarrow> bool \<Rightarrow> bool \<Rightarrow> error + container \<times> CVCache" where
  "p_extract si c X y n is_x is_train =
     (case cache_lookup c (Slot n is_x is_train) of
        Some v \<Rightarrow> Inr (v, c)
      | None \<Rightarrow>
          (case py_getitem (splits c) n of
             Inl ex \<Rightarrow> Inl ex
           | Inr (train, test) \<Rightarrow>
               (case si (if is_x then Some X else y) (if is_train then train else test) of
                  Inl ex \<Rightarrow> Inl ex
                | Inr result \<Rightarrow> Inr (result, cache_store c (Slot n is_x is_train) result))))"

text \<open>
  \<^verbatim>\<open>
      def _extract_pairwise(self, X, y, n, is_train=True):
          if self.cache is not None and (n, True, is_train) in self.cache:
              return self.cache[n, True, is_train]

          if not hasattr(X, "shape"):
              raise ValueError("Precomputed kernels or affinity matrices have "
                              "to be passed as arrays or sparse matrices.")
          if X.shape[0] != X.shape[1]:
              raise ValueError("X should be a square kernel matrix")
          train, test = self.splits[n]
          result = X[np.ix_(train if is_train else test, train)]

          if self.cache is not None:
              self.cache[n, True, is_train] = result
          return result
  \<close>
\<close>

definition p_extract_pairwise ::
  "CVCache \<Rightarrow> container \<Rightarrow> container option \<Rightarrow> int \<Rightarrow> bool \<Rightarrow> error + container \<times> CVCache" where
  "p_extract_pairwise c X y n is_train =
     (case cache_lookup c (Slot n True is_train) of
        Some v \<Rightarrow> Inr (v, c)
      | None \<Rightarrow>
          (case np_shape X of
             None \<Rightarrow> Inl (ValueError ''Precomputed kernels or affinity matrices have to be passed as arrays or sparse matrices.'')
           | Some dims \<Rightarrow>
               (case py_getitem dims 0 of
                  Inl ex \<Rightarrow> Inl ex
                | Inr d0 \<Rightarrow>
                    (case py_getitem dims 1 of
                       Inl ex \<Rightarrow> Inl ex
                     | Inr d1 \<Rightarrow>
                         (if d0 \<noteq> d1 then Inl (ValueError ''X should be a square kernel matrix'')
                          else
                            (case py_getitem (splits c) n of
                               Inl ex \<Rightarrow> Inl ex
                             | Inr (train, test) \<Rightarrow>
                                 (case np_getitem_ix X (if is_train then train else test) train of
                                    Inl ex \<Rightarrow> Inl ex
                                  | Inr result \<Rightarrow>
                                      Inr (result, cache_store c (Slot n True is_train) result))))))))"

text \<open>
  \<^verbatim>\<open>
      def extract(self, X, y, n, is_x=True, is_train=True):
          if is_x:
              if self.pairwise:
                  return self._extract_pairwise(X, y, n, is_train=is_train)
              return self._extract(X, y, n, is_x=True, is_train=is_train)
          if y is None:
              return None
          return self._extract(X, y, n, is_x=False, is_train=is_train)
  \<close>
  The value is \<^verbatim>\<open>None\<close> or a container. The method is named \<open>extract_cv\<close> here.
\<close>

definition some_value :: "error + container \<times> CVCache \<Rightarrow> error + container option \<times> CVCache" where
  "some_value r = (case r of Inl ex \<Rightarrow> Inl ex | Inr (v, c) \<Rightarrow> Inr (Some v, c))"

definition extract_cv ::
  "(container option \<Rightarrow> index_set \<Rightarrow> error + container) \<Rightarrow> CVCache \<Rightarrow> container \<Rightarrow>
   container option \<Rightarrow> int \<Rightarrow> bool \<Rightarrow> bool \<Rightarrow> error + container option \<times> CVCache" where
  "extract_cv si c X y n is_x is_train =
     (if is_x then
        (if pairwise c then some_value (p_extract_pairwise c X y n is_train)
         else some_value (p_extract si c X y n True is_train))
      else if y = None then Inr (None, c)
      else some_value (p_extract si c X y n False is_train))"

text \<open>
  \<^verbatim>\<open>
      def extract_param(self, key, x, n):
          if self.cache is not None and (n, key) in self.cache:
              return self.cache[n, key]

          out = safe_indexing(x, self.splits[n][0]) if _is_arraylike(x) else x

          if self.cache is not None:
              self.cache[n, key] = out
          return out
  \<close>
  \<^verbatim>\<open>_is_arraylike\<close> is external too, the parameter \<open>is_arraylike\<close>.
\<close>

definition extract_param ::
  "(container option \<Rightarrow> index_set \<Rightarrow> error + container) \<Rightarrow> (container \<Rightarrow> bool) \<Rightarrow> CVCache \<Rightarrow>
   string \<Rightarrow> container \<Rightarrow> int \<Rightarrow> error + container \<times> CVCache" where
  "extract_param si is_arraylike c key x n =
     (case cache_lookup c (ParamSlot n key) of
        Some v \<Rightarrow> Inr (v, c)
      | None \<Rightarrow>
          (if is_arraylike x then
             (case py_getitem (splits c) n of
                Inl ex \<Rightarrow> Inl ex
              | Inr (train, test) \<Rightarrow>
                  (case si (Some x) train of
                     Inl ex \<Rightarrow> Inl ex
                   | Inr out \<Rightarrow> Inr (out, cache_store c (ParamSlot n key) out)))
           else Inr (x, cache_store c (ParamSlot n key) x)))"

text \<open>
  A probe that raises whenever it is asked to compute a subset, and an indexing
  function for positions on one-dimensional data, to run the cache on explicit inputs.
\<close>

definition raising_probe :: "container option \<Rightarrow> index_set \<Rightarrow> error + container" where
  "raising_probe X inds = Inl (Fault ''computed twice'')"

definition take_positions :: "container option \<Rightarrow> index_set \<Rightarrow> error + container" where
  "take_positions X inds =
     (case X of
        Some (Array1 xs) \<Rightarrow>
          (case norm_indices (length xs) (ix_positions inds) of
             None \<Rightarrow> Inl IndexError
           | Some ks \<Rightarrow> Inr (Array1 (map (\<lambda>k. xs ! k) ks)))
      | _ \<Rightarrow> Inl TypeError)"

section \<open>Aggregating the scores\<close>

text \<open>
  Scores are 64-bit floats in the source. The model computes with real numbers: it has
  no rounding, no infinity and no NaN. Where numpy would return NaN (the mean of an
  empty slice) the model stops with \<open>NotANumber\<close>.

  The result table \<^verbatim>\<open>cv_results_\<close> is a dictionary from column names to columns: the
  list of the candidates' parameter dictionaries, an array of floats, an array of
  32-bit integer ranks, or a masked array of parameter values.
\<close>

datatype 'v cell = Masked | Cell 'v

datatype 'v column =
    ParamsCol "(string \<times> 'v) list list"
  | FloatCol "real list"
  | RankCol "nat list"
  | MaskedCol "'v cell list"

text \<open>The decimal digits of a number, as \<^verbatim>\<open>%d\<close> prints it.\<close>

fun str_of_nat :: "nat \<Rightarrow> string" where
  "str_of_nat n =
     (if n < 10 then [char_of (48 + n)]
      else str_of_nat (n div 10) @ [char_of (48 + n mod 10)])"

declare str_of_nat.simps [simp del]

text \<open>
  What \<^verbatim>\<open>np.array(array, dtype=np.float64)\<close> is given: after the replacement of
  \<open>FIT_FAILURE\<close> an entry is a number, the string \<^verbatim>\<open>'raise'\<close> (when that is the error
  score) or, when bare scores and pairs are mixed, a tuple. Only numbers convert.
\<close>

datatype entry = Num real | StrRaise | Tuple "real res" "real res"

definition is_tuple :: "entry \<Rightarrow> bool" where
  "is_tuple e = (case e of Tuple a b \<Rightarrow> True | _ \<Rightarrow> False)"

definition num_of :: "entry \<Rightarrow> real" where
  "num_of e = (case e of Num r \<Rightarrow> r | _ \<Rightarrow> 0)"

definition np_float_array :: "entry list \<Rightarrow> error + real list" where
  "np_float_array es =
     (if py_any is_tuple es then Inl (ValueError ''setting an array element with a sequence.'')
      else if py_any (\<lambda>e. e = StrRaise) es then Inl (ValueError ''could not convert string to float: raise'')
      else Inr (map num_of es))"

text \<open>
  \<^verbatim>\<open>.reshape(n_splits, n_candidates).T\<close>: the flat array is read split by split, and the
  transpose has one row per candidate and one column per split.
\<close>

definition reshape_T :: "real list \<Rightarrow> nat \<Rightarrow> nat \<Rightarrow> error + matrix" where
  "reshape_T flat n_splits n_candidates =
     (if length flat \<noteq> n_splits * n_candidates then Inl (ValueError ''cannot reshape array'')
      else Inr (Matrix n_splits
             (map (\<lambda>c. map (\<lambda>s. flat ! (s * n_candidates + c)) [0..<n_splits]) [0..<n_candidates])))"

text \<open>
  \<^verbatim>\<open>np.average(a, axis=1, weights=w)\<close> for two-dimensional \<open>a\<close> and \<open>w\<close>. Without weights
  it is the mean of every row. With weights of another shape numpy raises \<^verbatim>\<open>TypeError\<close>,
  with a row of weights that sums to zero \<^verbatim>\<open>ZeroDivisionError\<close>; otherwise every row's
  average is the sum of the weighted entries over the sum of the weights.
\<close>

definition np_average :: "matrix \<Rightarrow> matrix option \<Rightarrow> error + real list" where
  "np_average a weights =
     (case weights of
        None \<Rightarrow>
          (if ncols a = 0 \<and> rows a \<noteq> [] then Inl NotANumber
           else Inr (map (\<lambda>r. sum_list r / real (ncols a)) (rows a)))
      | Some w \<Rightarrow>
          (if nrows a \<noteq> nrows w \<or> ncols a \<noteq> ncols w then Inl TypeError
           else if py_any (\<lambda>r. sum_list r = 0) (rows w) then Inl ZeroDivisionError
           else Inr (map (\<lambda>(r, wr). sum_list (map (\<lambda>(x, k). x * k) (zip r wr)) / sum_list wr)
                      (zip (rows a) (rows w)))))"

text \<open>
  \<^verbatim>\<open>rankdata(a, method='min')\<close> of the external library: the ordinal rank of a value is
  its 1-based position in the sorted array, and every value gets the smallest ordinal
  rank among the values tied with it, that is one more than the position at which it
  first occurs in the sorted array.
\<close>

definition rankdata_min :: "real list \<Rightarrow> nat list" where
  "rankdata_min a = map (\<lambda>x. Suc (length (takeWhile (\<lambda>y. y \<noteq> x) (sort a)))) a"

text \<open>
  \<^verbatim>\<open>
  def _store(results, key_name, array, n_splits, n_candidates,
             weights=None, splits=False, rank=False):
      array = np.array(array, dtype=np.float64).reshape(n_splits, n_candidates).T
      if splits:
          for split_i in range(n_splits):
              results["split%d_%s" % (split_i, key_name)] = array[:, split_i]

      array_means = np.average(array, axis=1, weights=weights)
      results['mean_%s' % key_name] = array_means
      array_stds = np.sqrt(np.average((array - array_means[:, np.newaxis]) ** 2,
                                      axis=1, weights=weights))
      results['std_%s' % key_name] = array_stds

      if rank:
          results["rank_%s" % key_name] = np.asarray(
              rankdata(-array_means, method='min'), dtype=np.int32)
  \<close>
  The function fills the dictionary it is given; the model returns the filled
  dictionary, or the exception.
\<close>

definition store_splits ::
  "(string \<times> 'v column) list \<Rightarrow> string \<Rightarrow> matrix \<Rightarrow> nat \<Rightarrow> (string \<times> 'v column) list" where
  "store_splits results key_name array n_splits =
     fold (\<lambda>split_i res.
             AList.update (''split'' @ str_of_nat split_i @ ''_'' @ key_name)
               (FloatCol (map (\<lambda>r. r ! split_i) (rows array))) res)
       [0..<n_splits] results"

definition sq_deviations :: "matrix \<Rightarrow> real list \<Rightarrow> matrix" where
  "sq_deviations array means =
     Matrix (ncols array) (map (\<lambda>(r, m). map (\<lambda>x. (x - m)\<^sup>2) r) (zip (rows array) means))"

definition p_store ::
  "(string \<times> 'v column) list \<Rightarrow> string \<Rightarrow> entry list \<Rightarrow> nat \<Rightarrow> nat \<Rightarrow> matrix option \<Rightarrow>
   bool \<Rightarrow> bool \<Rightarrow> error + (string \<times> 'v column) list" where
  "p_store results key_name array n_splits n_candidates weights splits_flag rank =
     (case np_float_array array of
        Inl ex \<Rightarrow> Inl ex
      | Inr flat \<Rightarrow>
          (case reshape_T flat n_splits n_candidates of
             Inl ex \<Rightarrow> Inl ex
           | Inr arr \<Rightarrow>
               (let res1 = (if splits_flag then store_splits results key_name arr n_splits else results) in
                case np_average arr weights of
                  Inl ex \<Rightarrow> Inl ex
                | Inr array_means \<Rightarrow>
                    (let res2 = AList.update (''mean_'' @ key_name) (FloatCol array_means) res1 in
                     case np_average (sq_deviations arr array_means) weights of
                       Inl ex \<Rightarrow> Inl ex
                     | Inr variances \<Rightarrow>
                         (let res3 = AList.update (''std_'' @ key_name)
                                       (FloatCol (map sqrt variances)) res2 in
                          if rank then
                            Inr (AList.update (''rank_'' @ key_name)
                                   (RankCol (rankdata_min (map uminus array_means))) res3)
                          else Inr res3)))))"

text \<open>
  \<^verbatim>\<open>
  def create_cv_results(scores, candidate_params, n_splits, error_score, weights):
      if isinstance(scores[0], tuple):
          test_scores, train_scores = zip(*scores)
      else:
          test_scores = scores
          train_scores = None

      test_scores = [error_score if s is FIT_FAILURE else s for s in test_scores]
      if train_scores is not None:
          train_scores = [error_score if s is FIT_FAILURE else s
                          for s in train_scores]

      results = {'params': candidate_params}
      n_candidates = len(candidate_params)

      if weights is not None:
          weights = np.broadcast_to(weights[None, :],
                                    (len(candidate_params), len(weights)))

      _store(results, 'test_score', test_scores, n_splits, n_candidates,
             splits=True, rank=True, weights=weights)
      if train_scores is not None:
          _store(results, 'train_score', train_scores,
                 n_splits, n_candidates, splits=True)

      param_results = defaultdict(lambda: MaskedArray(np.empty(n_candidates),
                                                      mask=True,
                                                      dtype=object))
      for cand_i, params in enumerate(candidate_params):
          for name, value in params.items():
              param_results["param_%s" % name][cand_i] = value

      results.update(param_results)
      return results
  \<close>
  \<^verbatim>\<open>scores[0]\<close> raises \<^verbatim>\<open>IndexError\<close> on an empty list, and \<^verbatim>\<open>zip(*scores)\<close> raises
  \<^verbatim>\<open>TypeError\<close> when a bare score stands among the pairs. A parameter dictionary is
  given by its items.
\<close>

definition is_pair :: "score_record \<Rightarrow> bool" where
  "is_pair s = (case s of Single a \<Rightarrow> False | Both a b \<Rightarrow> True)"

definition test_of :: "score_record \<Rightarrow> real res" where
  "test_of s = (case s of Single a \<Rightarrow> a | Both a b \<Rightarrow> a)"

definition train_of :: "score_record \<Rightarrow> real res" where
  "train_of s = (case s of Single a \<Rightarrow> a | Both a b \<Rightarrow> b)"

definition replace_failure :: "error_score \<Rightarrow> real res \<Rightarrow> entry" where
  "replace_failure error_score s =
     (case s of
        FIT_FAILURE \<Rightarrow> (case error_score of Raise \<Rightarrow> StrRaise | Numeric r \<Rightarrow> Num r)
      | Ok v \<Rightarrow> Num v)"

definition bare_entry :: "error_score \<Rightarrow> score_record \<Rightarrow> entry" where
  "bare_entry error_score s =
     (case s of Single a \<Rightarrow> replace_failure error_score a | Both a b \<Rightarrow> Tuple a b)"

definition broadcast_weights :: "real list \<Rightarrow> nat \<Rightarrow> matrix" where
  "broadcast_weights w n_candidates = Matrix (length w) (replicate n_candidates w)"

text \<open>
  \<^verbatim>\<open>param_results[key]\<close> on the \<^verbatim>\<open>defaultdict\<close>: the column under the key, or a fresh
  column of \<open>n_candidates\<close> masked cells (which the access also stores).
  \<open>assign_cell\<close> is the assignment \<^verbatim>\<open>param_results[key][cand_i] = value\<close>.
\<close>

definition default_column :: "nat \<Rightarrow> (string \<times> 'v cell list) list \<Rightarrow> string \<Rightarrow> 'v cell list" where
  "default_column n_candidates param_results key =
     (case map_of param_results key of
        None \<Rightarrow> replicate n_candidates Masked
      | Some col \<Rightarrow> col)"

definition assign_cell ::
  "nat \<Rightarrow> (string \<times> 'v cell list) list \<Rightarrow> string \<Rightarrow> nat \<Rightarrow> 'v \<Rightarrow> (string \<times> 'v cell list) list" where
  "assign_cell n_candidates param_results key cand_i v =
     AList.update key ((default_column n_candidates param_results key)[cand_i := Cell v])
       param_results"

text \<open>\<^verbatim>\<open>"param_%s" % name\<close>.\<close>

definition param_key :: "string \<Rightarrow> string" where
  "param_key name = ''param_'' @ name"

definition assign_params ::
  "nat \<Rightarrow> (string \<times> 'v cell list) list \<Rightarrow> nat \<Rightarrow> (string \<times> 'v) list \<Rightarrow> (string \<times> 'v cell list) list" where
  "assign_params n_candidates param_results cand_i params =
     fold (\<lambda>(name, v) pr. assign_cell n_candidates pr (param_key name) cand_i v) params param_results"

definition param_columns :: "(string \<times> 'v) list list \<Rightarrow> (string \<times> 'v cell list) list" where
  "param_columns candidate_params =
     fold (\<lambda>(cand_i, params) pr. assign_params (length candidate_params) pr cand_i params)
       (zip [0..<length candidate_params] candidate_params) []"

definition dict_update ::
  "(string \<times> 'v column) list \<Rightarrow> (string \<times> 'v cell list) list \<Rightarrow> (string \<times> 'v column) list" where
  "dict_update results param_results =
     fold (\<lambda>(k, col) res. AList.update k (MaskedCol col) res) param_results results"

definition create_cv_results ::
  "score_record list \<Rightarrow> (string \<times> 'v) list list \<Rightarrow> nat \<Rightarrow> error_score \<Rightarrow> real list option \<Rightarrow>
   error + (string \<times> 'v column) list" where
  "create_cv_results scores candidate_params n_splits error_score weights =
     (case scores of
        [] \<Rightarrow> Inl IndexError
      | s0 # _ \<Rightarrow>
          (if is_pair s0 \<and> py_any (\<lambda>s. \<not> is_pair s) scores then Inl TypeError
           else
             (let test_scores =
                    (if is_pair s0 then map (\<lambda>s. replace_failure error_score (test_of s)) scores
                     else map (bare_entry error_score) scores);
                  train_scores =
                    (if is_pair s0
                     then Some (map (\<lambda>s. replace_failure error_score (train_of s)) scores)
                     else None);
                  results = [(''params'', ParamsCol candidate_params)];
                  n_candidates = length candidate_params;
                  weights2 = map_option (\<lambda>w. broadcast_weights w n_candidates) weights
              in
                case p_store results ''test_score'' test_scores n_splits n_candidates weights2
                       True True of
                  Inl ex \<Rightarrow> Inl ex
                | Inr res1 \<Rightarrow>
                    (case (case train_scores of
                             None \<Rightarrow> Inr res1
                           | Some tr \<Rightarrow>
                               p_store res1 ''train_score'' tr n_splits n_candidates None
                                 True False) of
                       Inl ex \<Rightarrow> Inl ex
                     | Inr res2 \<Rightarrow> Inr (dict_update res2 (param_columns candidate_params))))))"

text \<open>
  \<^verbatim>\<open>
  def get_best_params(candidate_params, cv_results):
      best_index = np.flatnonzero(cv_results["rank_test_score"] == 1)[0]
      return candidate_params[best_index]
  \<close>
  A missing key raises \<^verbatim>\<open>KeyError\<close>, and \<^verbatim>\<open>[0]\<close> raises \<^verbatim>\<open>IndexError\<close> when no entry
  equals 1. Whether a parameter value equals 1 is decided by the value's own equality,
  the parameter \<open>eq1\<close>; a list of dictionaries does not equal 1.
\<close>

definition first_index :: "('a \<Rightarrow> bool) \<Rightarrow> 'a list \<Rightarrow> nat option" where
  "first_index p xs =
     (if list_ex p xs then Some (length (takeWhile (\<lambda>x. \<not> p x) xs)) else None)"

definition equals_one :: "('v \<Rightarrow> bool) \<Rightarrow> 'v column \<Rightarrow> nat option" where
  "equals_one eq1 col =
     (case col of
        ParamsCol ps \<Rightarrow> None
      | FloatCol fs \<Rightarrow> first_index (\<lambda>f. f = 1) fs
      | RankCol rs \<Rightarrow> first_index (\<lambda>r. r = 1) rs
      | MaskedCol cs \<Rightarrow> first_index (\<lambda>c. case c of Masked \<Rightarrow> False | Cell v \<Rightarrow> eq1 v) cs)"

definition get_best_params ::
  "('v \<Rightarrow> bool) \<Rightarrow> (string \<times> 'v) list list \<Rightarrow> (string \<times> 'v column) list \<Rightarrow>
   error + (string \<times> 'v) list" where
  "get_best_params eq1 candidate_params cv_results =
     (case map_of cv_results ''rank_test_score'' of
        None \<Rightarrow> Inl (KeyError ''rank_test_score'')
      | Some col \<Rightarrow>
          (case equals_one eq1 col of
             None \<Rightarrow> Inl IndexError
           | Some best_index \<Rightarrow> py_getitem candidate_params (int best_index)))"

text \<open>
  The column of a table that was built, for statements about explicit inputs, and the
  rank in the words of the specification: one more than the number of distinct means
  that are strictly greater.
\<close>

definition column_of :: "error + (string \<times> 'v column) list \<Rightarrow> string \<Rightarrow> 'v column option" where
  "column_of r key = (case r of Inl ex \<Rightarrow> None | Inr results \<Rightarrow> map_of results key)"

definition distinct_greater_rank :: "real list \<Rightarrow> nat \<Rightarrow> nat" where
  "distinct_greater_rank means i = Suc (length (remdups (filter (\<lambda>m. means ! i < m) means)))"

text \<open>
  The best parameters of the table an aggregation returned, and the score records with
  every \<open>FIT_FAILURE\<close> replaced by a number, in the words of the specification.
\<close>

definition best_of ::
  "('v \<Rightarrow> bool) \<Rightarrow> (string \<times> 'v) list list \<Rightarrow> error + (string \<times> 'v column) list \<Rightarrow>
   error + (string \<times> 'v) list" where
  "best_of eq1 candidate_params r =
     (case r of Inl ex \<Rightarrow> Inl ex | Inr results \<Rightarrow> get_best_params eq1 candidate_params results)"



section \<open>Failure propagation through composites and scoring\<close>

lemma py_any_iff: "py_any p xs \<longleftrightarrow> (\<exists>x \<in> set xs. p x)"
  by (induction xs) auto

text \<open>
  Claim C2. For every list of per-step results, \<open>pipeline\<close> and \<open>feature_union\<close> return
  \<open>FIT_FAILURE\<close> as soon as one step or branch result is \<open>FIT_FAILURE\<close>, and otherwise
  the composite built from the names zipped with the steps, in order. \<open>score\<close> on a
  \<open>FIT_FAILURE\<close> model returns \<open>FIT_FAILURE\<close> as the test score, and as the train score
  too when \<open>X_train\<close> is given, without calling the scorer.
\<close>

theorem failure_propagation:
  "(FIT_FAILURE \<in> set steps \<longrightarrow>
      pipeline P names steps = FIT_FAILURE \<and>
      feature_union U names steps weights = FIT_FAILURE)
   \<and> (FIT_FAILURE \<notin> set steps \<longrightarrow>
      pipeline P names steps = Ok (P (zip names steps)) \<and>
      feature_union U names steps weights = Ok (U (zip names steps) weights))
   \<and> score FIT_FAILURE X_test y_test None y_train scorer = Inr (Single FIT_FAILURE)
   \<and> score FIT_FAILURE X_test y_test (Some X_train) y_train scorer =
        Inr (Both FIT_FAILURE FIT_FAILURE)"
  by (auto simp: pipeline_def feature_union_def py_any_iff score_def p_score_def)

theorem failure_propagation_witness:
  "pipeline (\<lambda>steps. length steps) [''scale'', ''svc''] [Ok (1::nat), FIT_FAILURE] = FIT_FAILURE
   \<and> feature_union (\<lambda>steps w. length steps + w) [''scale'', ''svc''] [Ok (1::nat), FIT_FAILURE] (7::nat)
        = FIT_FAILURE
   \<and> pipeline (\<lambda>steps. length steps) [''scale'', ''svc''] [Ok (1::nat), Ok 5] = Ok (2::nat)
   \<and> feature_union (\<lambda>steps w. length steps + w) [''scale'', ''svc''] [Ok (1::nat), Ok 5] (7::nat)
        = Ok (9::nat)
   \<and> score (FIT_FAILURE :: nat res) (0::nat) (Some (1::nat)) (Some 2) None (\<lambda>e X y. Inr 1)
        = Inr (Both FIT_FAILURE FIT_FAILURE)"
  using failure_propagation [where steps = "[Ok (1::nat), FIT_FAILURE]" and P = "\<lambda>steps. length steps"
      and names = "[''scale'', ''svc'']" and U = "\<lambda>steps w. length steps + w" and weights = "7::nat"
      and X_test = "0::nat" and y_test = "Some (1::nat)" and X_train = "2::nat" and y_train = None
      and scorer = "\<lambda>(e::nat) (X::nat) (y::nat option). Inr 1"]
    failure_propagation [where steps = "[Ok (1::nat), Ok 5]" and P = "\<lambda>steps. length steps"
      and names = "[''scale'', ''svc'']" and U = "\<lambda>steps w. length steps + w" and weights = "7::nat"
      and X_test = "0::nat" and y_test = "Some (1::nat)" and X_train = "2::nat" and y_train = None
      and scorer = "\<lambda>(e::nat) (X::nat) (y::nat option). Inr 1"]
  by simp

section \<open>The error policy of fit and fit-transform\<close>

text \<open>
  Claim C3. \<open>fit\<close> returns \<open>FIT_FAILURE\<close> at once, with no warning and whatever the
  estimator's operations are (none is called), when the model or \<open>X\<close> is already
  \<open>FIT_FAILURE\<close>. Otherwise, when parameters were applied and fitting raises \<open>ex\<close>:
  under the policy \<open>Raise\<close> the exception \<open>ex\<close> reaches the caller; under a numeric
  error score \<open>r\<close> one warning carrying \<open>r\<close> and \<open>ex\<close> is emitted and \<open>FIT_FAILURE\<close> is
  returned.
\<close>

theorem fit_short_circuit_and_policy:
  "fit ops FIT_FAILURE X y error_score fields params fit_params = Inr (FIT_FAILURE, [])
   \<and> fit ops est FIT_FAILURE y error_score fields params fit_params = Inr (FIT_FAILURE, [])
   \<and> (set_params ops e fields params True = Inr ep \<and>
        est_fit ops ep x y (fit_params_or_empty fit_params) = Inl ex \<longrightarrow>
          fit ops (Ok e) (Ok x) y Raise fields params fit_params = Inl ex \<and>
          fit ops (Ok e) (Ok x) y (Numeric r) fields params fit_params =
            Inr (FIT_FAILURE, [FitFailedWarning r ex]))"
  by (simp add: fit_def fit_attempt_def warn_fit_failure_def split: res.split)

theorem fit_short_circuit_and_policy_witness:
  "fit demo_ops (Ok 1) (Ok 0) 0 Raise None None None = Inl (Fault ''empty data'')
   \<and> fit demo_ops (Ok 1) (Ok 0) 0 (Numeric 0) None None None =
        Inr (FIT_FAILURE, [FitFailedWarning 0 (Fault ''empty data'')])"
  using fit_short_circuit_and_policy [where ops = demo_ops and e = 1 and ep = 1 and x = 0
      and y = 0 and fields = None and params = None and fit_params = None
      and ex = "Fault ''empty data''" and r = 0]
  by (simp add: demo_ops_def set_params_def fit_params_or_empty_def)

text \<open>
  Claim C10. Under a numeric error score, an exception raised while the parameters are
  applied (by \<open>copy_estimator\<close> or by the estimator's \<open>set_params\<close>), before any fit
  call, is handled like a fit fault: \<open>fit\<close> emits the warning and returns
  \<open>FIT_FAILURE\<close>, and \<open>fit_transform\<close> emits the warning and returns \<open>FIT_FAILURE\<close> for
  both outputs.
\<close>

theorem parameter_fault_is_caught:
  "(set_params ops e fields params True = Inl ex \<longrightarrow>
      fit ops (Ok e) (Ok x) y (Numeric r) fields params fit_params =
        Inr (FIT_FAILURE, [FitFailedWarning r ex]) \<and>
      fit_transform ops (Ok e) (Ok x) y (Numeric r) fields params fit_params =
        Inr ((FIT_FAILURE, FIT_FAILURE), [FitFailedWarning r ex]))
   \<and> (copy_estimator ops e = Inl ex \<longrightarrow> set_params ops e fields params True = Inl ex)
   \<and> (copy_estimator ops e = Inr ec \<and> est_set_params ops ec (sparse_params fs ps) = Inl ex \<longrightarrow>
        set_params ops e (Some fs) (Some ps) True = Inl ex)"
  by (simp add: fit_def fit_attempt_def fit_transform_def fit_transform_attempt_def
      warn_fit_failure_def set_params_def)

theorem parameter_fault_is_caught_witness:
  "fit demo_ops (Ok 0) (Ok 3) 0 (Numeric 0) (Some [''C'']) (Some [Given 5]) None =
        Inr (FIT_FAILURE, [FitFailedWarning 0 (ValueError ''Invalid parameter'')])
   \<and> fit_transform demo_ops (Ok 0) (Ok 3) 0 (Numeric 0) (Some [''C'']) (Some [Given 5]) None =
        Inr ((FIT_FAILURE, FIT_FAILURE), [FitFailedWarning 0 (ValueError ''Invalid parameter'')])"
  using parameter_fault_is_caught [where ops = demo_ops and e = 0 and ec = 0 and x = 3
      and y = 0 and fields = "Some [''C'']" and params = "Some [Given 5]" and fit_params = None
      and fs = "[''C'']" and ps = "[Given 5]"
      and ex = "ValueError ''Invalid parameter''" and r = 0]
  by (simp add: demo_ops_def)

section \<open>Weighted concatenation of branch outputs\<close>

lemma map_filter_Cons: "List.map_filter f (x # xs) = (case f x of None \<Rightarrow> List.map_filter f xs | Some y \<Rightarrow> y # List.map_filter f xs)"
  by (simp add: List.map_filter_def split: option.split)

lemma weighted_branches_surviving:
  "FIT_FAILURE \<notin> set Xs \<Longrightarrow>
   weighted_branches Xs ws =
     map (\<lambda>(b, w). case w of None \<Rightarrow> b | Some k \<Rightarrow> scale b k) (surviving Xs ws)"
proof (induction Xs arbitrary: ws)
  case Nil
  then show ?case by (simp add: weighted_branches_def surviving_def List.map_filter_def)
next
  case (Cons X Xs)
  show ?case
  proof (cases ws)
    case Nil
    then show ?thesis by (simp add: weighted_branches_def surviving_def List.map_filter_def)
  next
    case (Cons w ws1)
    have ih: "weighted_branches Xs ws1 =
       map (\<lambda>(b, w). case w of None \<Rightarrow> b | Some k \<Rightarrow> scale b k) (surviving Xs ws1)"
      using Cons.IH Cons.prems by simp
    have nf: "X \<noteq> FIT_FAILURE" using Cons.prems by auto
    show ?thesis
      using ih nf unfolding Cons weighted_branches_def surviving_def
      by (simp add: map_filter_Cons split: res.split option.split)
  qed
qed

lemma mat_weighted:
  "mat (case w of None \<Rightarrow> b | Some k \<Rightarrow> scale b k) =
     Matrix (ncols (mat b)) (map (map (weigh w)) (rows (mat b)))"
proof -
  have n: "weigh None = (\<lambda>v. v)" by (simp add: weigh_def fun_eq_iff)
  have s: "\<And>k. weigh (Some k) = (\<lambda>v. v * k)" by (simp add: weigh_def fun_eq_iff)
  show ?thesis
    by (cases b; cases w) (simp_all add: scale_def scale_matrix_def n s)
qed

lemma issparse_weighted:
  "issparse (case w of None \<Rightarrow> b | Some k \<Rightarrow> scale b k) = issparse b"
  by (cases b; cases w) (simp_all add: scale_def issparse_def)

lemma hstack_ok:
  "ms = m # rest \<Longrightarrow> list_all (\<lambda>k. nrows k = nrows m) rest \<Longrightarrow>
   hstack ms = Inr (Matrix (sum_list (map ncols ms))
                      (map (\<lambda>i. concat (map (\<lambda>k. rows k ! i) ms)) [0..<nrows m]))"
  by (simp add: hstack_def)

text \<open>
  Claim C6. \<open>feature_union_concat\<close> returns \<open>FIT_FAILURE\<close> when a branch output is
  \<open>FIT_FAILURE\<close>. Otherwise, with one weight entry per branch: when no branch survives
  the result is the dense empty block of shape \<open>(n, 0)\<close>; when the surviving branches
  agree in their number of rows the result is a block with that many rows, whose
  columns are the survivors' columns side by side in branch order, every entry of a
  branch multiplied by its weight when it has one, stored sparse when some surviving
  branch is sparse and dense when all are dense.
\<close>

theorem concat_branches:
  "(FIT_FAILURE \<in> set Xs \<longrightarrow> feature_union_concat Xs n ws = Inr FIT_FAILURE)
   \<and> (FIT_FAILURE \<notin> set Xs \<and> length ws = length Xs \<and> surviving Xs ws = [] \<longrightarrow>
        feature_union_concat Xs n ws = Inr (Ok (Dense (Matrix 0 (replicate n [])))))
   \<and> (FIT_FAILURE \<notin> set Xs \<and> length ws = length Xs \<and> surviving Xs ws = (b0, w0) # rest \<and>
        list_all (\<lambda>(b, w). nrows (mat b) = nrows (mat b0)) rest \<longrightarrow>
        (\<exists>m. feature_union_concat Xs n ws =
                Inr (Ok (if list_ex (\<lambda>(b, w). issparse b) (surviving Xs ws) then Sparse m else Dense m))
           \<and> nrows m = nrows (mat b0)
           \<and> ncols m = sum_list (map (\<lambda>(b, w). ncols (mat b)) (surviving Xs ws))
           \<and> (\<forall>i < nrows (mat b0).
                 rows m ! i =
                   concat (map (\<lambda>(b, w). map (weigh w) (rows (mat b) ! i)) (surviving Xs ws)))))"
proof (intro conjI impI)
  assume "FIT_FAILURE \<in> set Xs"
  then show "feature_union_concat Xs n ws = Inr FIT_FAILURE"
    by (auto simp: feature_union_concat_def py_any_iff)
next
  assume "FIT_FAILURE \<notin> set Xs \<and> length ws = length Xs \<and> surviving Xs ws = []"
  then show "feature_union_concat Xs n ws = Inr (Ok (Dense (Matrix 0 (replicate n []))))"
    by (auto simp: feature_union_concat_def py_any_iff weighted_branches_surviving np_zeros_def)
next
  assume a: "FIT_FAILURE \<notin> set Xs \<and> length ws = length Xs \<and> surviving Xs ws = (b0, w0) # rest \<and>
        list_all (\<lambda>(b, w). nrows (mat b) = nrows (mat b0)) rest"
  define S where "S = surviving Xs ws"
  define W where "W = map (\<lambda>(b, w). case w of None \<Rightarrow> b | Some k \<Rightarrow> scale b k) S"
  define ms where "ms = map mat W"
  define m where "m = Matrix (sum_list (map ncols ms))
                      (map (\<lambda>i. concat (map (\<lambda>k. rows k ! i) ms)) [0..<nrows (mat b0)])"
  have S: "S = (b0, w0) # rest" using a S_def by simp
  have wb: "weighted_branches Xs ws = W"
    using a by (simp add: weighted_branches_surviving W_def S_def)
  have ms_eq: "ms = map (\<lambda>(b, w). Matrix (ncols (mat b)) (map (map (weigh w)) (rows (mat b)))) S"
    unfolding ms_def W_def by (simp add: mat_weighted case_prod_unfold)
  have nr: "\<And>b w. nrows (Matrix (ncols (mat b)) (map (map (weigh w)) (rows (mat b)))) = nrows (mat b)"
    by (simp add: nrows_def)
  have hs: "hstack ms = Inr m"
  proof -
    have "ms = Matrix (ncols (mat b0)) (map (map (weigh w0)) (rows (mat b0))) #
                 map (\<lambda>(b, w). Matrix (ncols (mat b)) (map (map (weigh w)) (rows (mat b)))) rest"
      using ms_eq S by simp
    moreover have "list_all (\<lambda>k. nrows k = nrows (Matrix (ncols (mat b0)) (map (map (weigh w0)) (rows (mat b0)))))
        (map (\<lambda>(b, w). Matrix (ncols (mat b)) (map (map (weigh w)) (rows (mat b)))) rest)"
      using a by (auto simp: list_all_iff nrows_def)
    ultimately show ?thesis
      using hstack_ok by (simp add: m_def nr)
  qed
  have sp: "py_any issparse W = list_ex (\<lambda>(b, w). issparse b) S"
    unfolding W_def by (auto simp: py_any_iff list_ex_iff issparse_weighted case_prod_unfold)
  have ne: "W \<noteq> []" using S W_def by simp
  have res: "feature_union_concat Xs n ws =
      Inr (Ok (if list_ex (\<lambda>(b, w). issparse b) S then Sparse m else Dense m))"
    using a wb hs sp ne by (auto simp: feature_union_concat_def py_any_iff ms_def)
  have c1: "nrows m = nrows (mat b0)" by (simp add: m_def nrows_def)
  have c2: "ncols m = sum_list (map (\<lambda>(b, w). ncols (mat b)) S)"
    by (simp add: m_def ms_eq comp_def case_prod_unfold)
  have c3: "\<forall>i < nrows (mat b0). rows m ! i =
       concat (map (\<lambda>(b, w). map (weigh w) (rows (mat b) ! i)) S)"
  proof (intro allI impI)
    fix i assume i: "i < nrows (mat b0)"
    have "\<And>b w. (b, w) \<in> set S \<Longrightarrow> i < length (rows (mat b))"
      using a i S by (auto simp: list_all_iff nrows_def)
    then have "map (\<lambda>k. rows k ! i) ms = map (\<lambda>(b, w). map (weigh w) (rows (mat b) ! i)) S"
      unfolding ms_eq by (auto simp: case_prod_unfold)
    then show "rows m ! i = concat (map (\<lambda>(b, w). map (weigh w) (rows (mat b) ! i)) S)"
      using i by (simp add: m_def)
  qed
  show "\<exists>m. feature_union_concat Xs n ws =
                Inr (Ok (if list_ex (\<lambda>(b, w). issparse b) (surviving Xs ws) then Sparse m else Dense m))
           \<and> nrows m = nrows (mat b0)
           \<and> ncols m = sum_list (map (\<lambda>(b, w). ncols (mat b)) (surviving Xs ws))
           \<and> (\<forall>i < nrows (mat b0).
                 rows m ! i =
                   concat (map (\<lambda>(b, w). map (weigh w) (rows (mat b) ! i)) (surviving Xs ws)))"
    using res c1 c2 c3 unfolding S_def by blast
qed


lemmas concat_eval = feature_union_concat_def weighted_branches_def surviving_def map_filter_Cons
  List.map_filter_def hstack_def nrows_def scale_def scale_matrix_def issparse_def np_zeros_def weigh_def

theorem concat_branches_witness:
  "FIT_FAILURE \<notin> set [Ok (Some (Dense (Matrix 1 [[1], [2]]))), Ok None,
                          Ok (Some (Sparse (Matrix 2 [[3, 4], [5, 6]])))]
   \<and> surviving [Ok (Some (Dense (Matrix 1 [[1], [2]]))), Ok None,
                 Ok (Some (Sparse (Matrix 2 [[3, 4], [5, 6]])))] [Some 2, None, None]
       = [(Dense (Matrix 1 [[1], [2]]), Some 2), (Sparse (Matrix 2 [[3, 4], [5, 6]]), None)]
   \<and> feature_union_concat [Ok (Some (Dense (Matrix 1 [[1], [2]]))), Ok None,
                 Ok (Some (Sparse (Matrix 2 [[3, 4], [5, 6]])))] 2 [Some 2, None, None]
       = Inr (Ok (Sparse (Matrix 3 [[2, 3, 4], [4, 5, 6]])))
   \<and> feature_union_concat [Ok None, Ok None] 4 [Some 2, None]
       = Inr (Ok (Dense (Matrix 0 (replicate 4 []))))
   \<and> feature_union_concat [Ok None, FIT_FAILURE] 4 [Some 2, None] = Inr FIT_FAILURE"
  using concat_branches [where Xs = "[Ok (Some (Dense (Matrix 1 [[1], [2]]))), Ok None,
                 Ok (Some (Sparse (Matrix 2 [[3, 4], [5, 6]])))]" and ws = "[Some 2, None, None]"
      and n = 2 and ?b0.0 = "Dense (Matrix 1 [[1], [2]])" and ?w0.0 = "Some 2"
      and rest = "[(Sparse (Matrix 2 [[3, 4], [5, 6]]), None)]"]
  by (simp add: concat_eval)

section \<open>Memoization in the fold cache\<close>

lemma cache_lookup_store:
  "cache_lookup (cache_store c k v) k' =
     (if cache c = None then None else if k' = k then Some v else cache_lookup c k')"
  by (auto simp: cache_lookup_def cache_store_def update_conv' split: option.splits)

lemma pairwise_store: "pairwise (cache_store c k v) = pairwise c"
  by (simp add: cache_store_def split: option.splits)

lemma p_extract_hit:
  "cache_lookup c (Slot n ix it) = Some v \<Longrightarrow> p_extract si c X y n ix it = Inr (v, c)"
  by (simp add: p_extract_def)

lemma p_extract_pairwise_hit:
  "cache_lookup c (Slot n True it) = Some v \<Longrightarrow> p_extract_pairwise c X y n it = Inr (v, c)"
  by (simp add: p_extract_pairwise_def)

lemma p_extract_result:
  assumes "cache c \<noteq> None" and "p_extract si c X y n ix it = Inr (v, c1)"
  shows "cache_lookup c1 (Slot n ix it) = Some v \<and> pairwise c1 = pairwise c \<and>
         (\<forall>k w. cache_lookup c k = Some w \<longrightarrow> cache_lookup c1 k = Some w)"
  using assms
  by (auto simp: p_extract_def cache_lookup_store pairwise_store
      split: option.splits sum.splits prod.splits)

lemma p_extract_pairwise_result:
  assumes "cache c \<noteq> None" and "p_extract_pairwise c X y n it = Inr (v, c1)"
  shows "cache_lookup c1 (Slot n True it) = Some v \<and> pairwise c1 = pairwise c \<and>
         (\<forall>k w. cache_lookup c k = Some w \<longrightarrow> cache_lookup c1 k = Some w)"
  using assms
  by (auto simp: p_extract_pairwise_def cache_lookup_store pairwise_store
      split: option.splits sum.splits prod.splits if_splits)

lemma some_value_Inr: "some_value r = Inr (v, c) \<longleftrightarrow> (\<exists>w. v = Some w \<and> r = Inr (w, c))"
  by (auto simp: some_value_def split: sum.splits)

lemma extract_cv_memo:
  "cache c \<noteq> None \<and> extract_cv si c X y n is_x is_train = Inr (v, c1) \<longrightarrow>
     extract_cv si2 c1 X y n is_x is_train = Inr (v, c1)
     \<and> (is_x \<or> (y \<noteq> None \<and> y2 \<noteq> None) \<longrightarrow>
          cache_lookup c1 (Slot n is_x is_train) = v \<and>
          extract_cv si2 c1 X2 y2 n is_x is_train = Inr (v, c1))
     \<and> (\<forall>k w. cache_lookup c k = Some w \<longrightarrow> cache_lookup c1 k = Some w)"
proof (intro impI, elim conjE)
  assume en: "cache c \<noteq> None" and call: "extract_cv si c X y n is_x is_train = Inr (v, c1)"
  consider (pw) "is_x" "pairwise c" | (feat) "is_x" "\<not> pairwise c"
    | (nolab) "\<not> is_x" "y = None" | (lab) "\<not> is_x" "y \<noteq> None"
    by blast
  then show "extract_cv si2 c1 X y n is_x is_train = Inr (v, c1)
     \<and> (is_x \<or> (y \<noteq> None \<and> y2 \<noteq> None) \<longrightarrow>
          cache_lookup c1 (Slot n is_x is_train) = v \<and>
          extract_cv si2 c1 X2 y2 n is_x is_train = Inr (v, c1))
     \<and> (\<forall>k w. cache_lookup c k = Some w \<longrightarrow> cache_lookup c1 k = Some w)"
  proof cases
    case pw
    from call pw obtain w where w: "v = Some w" "p_extract_pairwise c X y n is_train = Inr (w, c1)"
      by (auto simp: extract_cv_def some_value_Inr)
    from p_extract_pairwise_result [OF en w(2)]
    have r: "cache_lookup c1 (Slot n True is_train) = Some w" "pairwise c1 = pairwise c"
      "\<forall>k w. cache_lookup c k = Some w \<longrightarrow> cache_lookup c1 k = Some w" by auto
    have "\<And>X' y'. extract_cv si2 c1 X' y' n True is_train = Inr (v, c1)"
      using r pw w by (simp add: extract_cv_def p_extract_pairwise_hit some_value_def)
    with r pw w show ?thesis by simp
  next
    case feat
    from call feat obtain w where w: "v = Some w" "p_extract si c X y n True is_train = Inr (w, c1)"
      by (auto simp: extract_cv_def some_value_Inr)
    from p_extract_result [OF en w(2)]
    have r: "cache_lookup c1 (Slot n True is_train) = Some w" "pairwise c1 = pairwise c"
      "\<forall>k w. cache_lookup c k = Some w \<longrightarrow> cache_lookup c1 k = Some w" by auto
    have "\<And>X' y'. extract_cv si2 c1 X' y' n True is_train = Inr (v, c1)"
      using r feat w by (simp add: extract_cv_def p_extract_hit some_value_def)
    with r feat w show ?thesis by simp
  next
    case nolab
    with call have "v = None" "c1 = c" by (auto simp: extract_cv_def)
    with nolab show ?thesis by (simp add: extract_cv_def)
  next
    case lab
    from call lab obtain w where w: "v = Some w" "p_extract si c X y n False is_train = Inr (w, c1)"
      by (auto simp: extract_cv_def some_value_Inr)
    from p_extract_result [OF en w(2)]
    have r: "cache_lookup c1 (Slot n False is_train) = Some w" "pairwise c1 = pairwise c"
      "\<forall>k w. cache_lookup c k = Some w \<longrightarrow> cache_lookup c1 k = Some w" by auto
    have "\<And>X' y'. y' \<noteq> None \<Longrightarrow> extract_cv si2 c1 X' y' n False is_train = Inr (v, c1)"
      using r lab w by (simp add: extract_cv_def p_extract_hit some_value_def)
    with r lab w show ?thesis by simp
  qed
qed


lemma cache_lookup_enabled: "cache_lookup c k = Some w \<Longrightarrow> \<exists>d. cache c = Some d"
  by (simp add: cache_lookup_def split: option.splits)

lemma extract_param_keeps_entries:
  "extract_param si isa c key x n = Inr (u, c2) \<Longrightarrow> cache_lookup c k = Some w \<Longrightarrow>
   cache_lookup c2 k = Some w"
  by (auto simp: extract_param_def cache_lookup_store dest: cache_lookup_enabled
      split: option.splits sum.splits prod.splits if_splits)

text \<open>
  Claim C1. With memoization enabled, when a call of \<open>extract_cv\<close> returns a value \<open>v\<close>
  and the cache \<open>c1\<close>, a second call with the same arguments returns \<open>v\<close> again and
  leaves \<open>c1\<close> as it is, whatever the indexing function is then (also one that raises
  when called): nothing is computed. When a subset was extracted, \<open>v\<close> is the entry of
  \<open>c1\<close> under the key \<open>(n, is_x, is_train)\<close>, and the second call returns it for any
  dataset. No call of \<open>extract_cv\<close> or \<open>extract_param\<close> changes an entry that is already
  in the cache.
\<close>

theorem extract_memoized:
  "(cache c \<noteq> None \<and> extract_cv si c X y n is_x is_train = Inr (v, c1) \<longrightarrow>
     extract_cv si2 c1 X y n is_x is_train = Inr (v, c1)
     \<and> (is_x \<or> (y \<noteq> None \<and> y2 \<noteq> None) \<longrightarrow>
          cache_lookup c1 (Slot n is_x is_train) = v \<and>
          extract_cv si2 c1 X2 y2 n is_x is_train = Inr (v, c1))
     \<and> (\<forall>k w. cache_lookup c k = Some w \<longrightarrow> cache_lookup c1 k = Some w))
   \<and> (extract_param si isa c key x n = Inr (u, c2) \<longrightarrow>
        (\<forall>k w. cache_lookup c k = Some w \<longrightarrow> cache_lookup c2 k = Some w))"
  using extract_cv_memo [of c si X y n is_x is_train v c1 si2 y2 X2]
    extract_param_keeps_entries [of si isa c key x n u c2]
  by blast

lemmas cache_eval = extract_cv_def p_extract_def p_extract_pairwise_def some_value_def
  cache_lookup_def cache_store_def CVCache_init_def py_getitem_def norm_index_def norm_indices_def
  ix_positions_def take_positions_def raising_probe_def np_shape_def np_getitem_ix_def nrows_def

theorem extract_memoized_witness:
  "cache (CVCache_init [(Positions [0, 1], Positions [2])] False True) \<noteq> None
   \<and> extract_cv take_positions (CVCache_init [(Positions [0, 1], Positions [2])] False True)
        (Array1 [10, 20, 30]) None 0 True True =
        Inr (Some (Array1 [10, 20]),
             CVCache [(Positions [0, 1], Positions [2])] False (Some [(Slot 0 True True, Array1 [10, 20])]))
   \<and> extract_cv raising_probe
        (CVCache [(Positions [0, 1], Positions [2])] False (Some [(Slot 0 True True, Array1 [10, 20])]))
        (Array1 [10, 20, 30]) None 0 True True =
        Inr (Some (Array1 [10, 20]),
             CVCache [(Positions [0, 1], Positions [2])] False (Some [(Slot 0 True True, Array1 [10, 20])]))"
  using extract_memoized [where c = "CVCache_init [(Positions [0, 1], Positions [2])] False True"
      and si = take_positions and X = "Array1 [10, 20, 30]" and y = None and n = 0
      and is_x = True and is_train = True and v = "Some (Array1 [10, 20])"
      and ?c1.0 = "CVCache [(Positions [0, 1], Positions [2])] False (Some [(Slot 0 True True, Array1 [10, 20])])"
      and ?si2.0 = raising_probe and ?X2.0 = "Array1 [10, 20, 30]" and ?y2.0 = None]
  by (simp add: cache_eval)

section \<open>Pairwise extraction\<close>

lemma index_count_positions: "index_count s = length (ix_positions s)"
proof (cases s)
  case (Positions ps)
  then show ?thesis by (simp add: index_count_def ix_positions_def)
next
  case (Mask bs)
  have "filter (\<lambda>b. b) bs = filter (\<lambda>b. b) (map (\<lambda>i. bs ! i) [0..<length bs])"
    by (simp add: map_nth)
  also have "\<dots> = map (\<lambda>i. bs ! i) (filter (\<lambda>i. bs ! i) [0..<length bs])"
    by (simp add: filter_map comp_def)
  finally have "length (filter (\<lambda>b. b) bs) = length (filter (\<lambda>i. bs ! i) [0..<length bs])"
    by simp
  with Mask show ?thesis by (simp add: index_count_def ix_positions_def mask_positions_def)
qed

lemma norm_indices_length: "norm_indices n ps = Some ks \<Longrightarrow> length ks = length ps"
  by (auto simp: norm_indices_def split: if_splits)

lemma py_getitem_shape2:
  "py_getitem [a, b] 0 = Inr a" "py_getitem [a, b] 1 = Inr b" "py_getitem [a] 1 = Inl IndexError"
  "py_getitem [a] 0 = Inr a"
  by (simp_all add: py_getitem_def norm_index_def)

text \<open>
  Claim C7, as the code has it. In pairwise mode the cache is consulted first: when the
  key \<open>(n, True, is_train)\<close> is in the cache, the cached slice is returned and the
  container is not looked at. When the key is not in the cache, feature extraction
  raises \<^verbatim>\<open>ValueError\<close> for a container without a shape and for a two-dimensional
  container that is not square; and on a square container, with a fold index and sample
  indices in range, the train slice holds the rows and the columns of the train
  index-set (shape \<open>(|train|, |train|)\<close>) and the test slice the rows of the test
  index-set and the columns of the train index-set (shape \<open>(|test|, |train|)\<close>).
\<close>

theorem pairwise_extraction:
  "pairwise c \<longrightarrow>
     (cache_lookup c (Slot n True is_train) = Some v \<longrightarrow>
        extract_cv si c X y n True is_train = Inr (Some v, c))
     \<and> (cache_lookup c (Slot n True is_train) = None \<longrightarrow>
          (np_shape X = None \<longrightarrow>
             extract_cv si c X y n True is_train =
               Inl (ValueError ''Precomputed kernels or affinity matrices have to be passed as arrays or sparse matrices.''))
          \<and> (X = Array2 m \<and> nrows m \<noteq> ncols m \<longrightarrow>
               extract_cv si c X y n True is_train = Inl (ValueError ''X should be a square kernel matrix''))
          \<and> (X = Array2 m \<and> nrows m = ncols m \<and> py_getitem (splits c) n = Inr (train, test) \<and>
               norm_indices (nrows m) (ix_positions (if is_train then train else test)) = Some rsel \<and>
               norm_indices (nrows m) (ix_positions train) = Some csel \<longrightarrow>
               (\<exists>R c1. extract_cv si c X y n True is_train = Inr (Some (Array2 R), c1)
                  \<and> nrows R = index_count (if is_train then train else test)
                  \<and> ncols R = index_count train
                  \<and> (\<forall>i < nrows R. \<forall>j < ncols R. rows R ! i ! j = rows m ! (rsel ! i) ! (csel ! j)))))"
proof (intro impI conjI)
  assume pw: "pairwise c" and hit: "cache_lookup c (Slot n True is_train) = Some v"
  then show "extract_cv si c X y n True is_train = Inr (Some v, c)"
    by (simp add: extract_cv_def p_extract_pairwise_hit some_value_def)
next
  assume pw: "pairwise c" and miss: "cache_lookup c (Slot n True is_train) = None"
    and "np_shape X = None"
  then show "extract_cv si c X y n True is_train =
        Inl (ValueError ''Precomputed kernels or affinity matrices have to be passed as arrays or sparse matrices.'')"
    by (simp add: extract_cv_def p_extract_pairwise_def some_value_def)
next
  assume pw: "pairwise c" and miss: "cache_lookup c (Slot n True is_train) = None"
    and "X = Array2 m \<and> nrows m \<noteq> ncols m"
  then show "extract_cv si c X y n True is_train =
      Inl (ValueError ''X should be a square kernel matrix'')"
    by (simp add: extract_cv_def p_extract_pairwise_def some_value_def np_shape_def
        py_getitem_shape2)
next
  assume pw: "pairwise c" and miss: "cache_lookup c (Slot n True is_train) = None"
    and a: "X = Array2 m \<and> nrows m = ncols m \<and> py_getitem (splits c) n = Inr (train, test) \<and>
        norm_indices (nrows m) (ix_positions (if is_train then train else test)) = Some rsel \<and>
        norm_indices (nrows m) (ix_positions train) = Some csel"
  define R where "R = Matrix (length csel) (map (\<lambda>r. map (\<lambda>c. rows m ! r ! c) csel) rsel)"
  define c1 where "c1 = cache_store c (Slot n True is_train) (Array2 R)"
  have X: "X = Array2 m" using a by blast
  have sp: "py_getitem (splits c) n = Inr (train, test)" using a by blast
  have r1: "norm_indices (nrows m) (ix_positions (if is_train then train else test)) = Some rsel"
    using a by blast
  have r0: "norm_indices (nrows m) (ix_positions train) = Some csel"
    using a by blast
  have sq: "nrows m = ncols m" using a by blast
  have r2: "norm_indices (ncols m) (ix_positions train) = Some csel"
    using r0 unfolding sq .
  have gi: "np_getitem_ix X (if is_train then train else test) train = Inr (Array2 R)"
    unfolding np_getitem_ix_def X by (simp add: r1 r2 R_def)
  have call: "extract_cv si c X y n True is_train = Inr (Some (Array2 R), c1)"
    using pw miss sp sq gi
    by (simp add: extract_cv_def p_extract_pairwise_def some_value_def np_shape_def
        py_getitem_shape2 c1_def X)
  have lr: "length rsel = index_count (if is_train then train else test)"
    using norm_indices_length [OF r1] by (simp add: index_count_positions)
  have lc: "length csel = index_count train"
    using norm_indices_length [OF r0] by (simp add: index_count_positions)
  have nr: "nrows R = index_count (if is_train then train else test)"
    using lr by (simp add: R_def nrows_def)
  have nc: "ncols R = index_count train" using lc by (simp add: R_def)
  have ent: "\<forall>i < nrows R. \<forall>j < ncols R. rows R ! i ! j = rows m ! (rsel ! i) ! (csel ! j)"
    by (simp add: R_def nrows_def)
  show "\<exists>R c1. extract_cv si c X y n True is_train = Inr (Some (Array2 R), c1)
           \<and> nrows R = index_count (if is_train then train else test)
           \<and> ncols R = index_count train
           \<and> (\<forall>i < nrows R. \<forall>j < ncols R. rows R ! i ! j = rows m ! (rsel ! i) ! (csel ! j))"
    using call nr nc ent by blast
qed

theorem pairwise_extraction_witness:
  "pairwise (CVCache_init [(Positions [0, 2], Mask [False, True, False])] True True)
   \<and> extract_cv raising_probe (CVCache_init [(Positions [0, 2], Mask [False, True, False])] True True)
       (Array2 (Matrix 3 [[1, 2, 3], [4, 5, 6], [7, 8, 9]])) None 0 True True
       = Inr (Some (Array2 (Matrix 2 [[1, 3], [7, 9]])),
              CVCache [(Positions [0, 2], Mask [False, True, False])] True
                (Some [(Slot 0 True True, Array2 (Matrix 2 [[1, 3], [7, 9]]))]))
   \<and> extract_cv raising_probe (CVCache_init [(Positions [0, 2], Mask [False, True, False])] True True)
       (Array2 (Matrix 3 [[1, 2, 3], [4, 5, 6], [7, 8, 9]])) None 0 True False
       = Inr (Some (Array2 (Matrix 2 [[4, 6]])),
              CVCache [(Positions [0, 2], Mask [False, True, False])] True
                (Some [(Slot 0 True False, Array2 (Matrix 2 [[4, 6]]))]))
   \<and> extract_cv raising_probe (CVCache_init [(Positions [0, 2], Mask [False, True, False])] True True)
       (Array2 (Matrix 3 [[1, 2, 3], [4, 5, 6]])) None 0 True True
       = Inl (ValueError ''X should be a square kernel matrix'')
   \<and> extract_cv raising_probe
       (CVCache [(Positions [0, 2], Mask [False, True, False])] True
          (Some [(Slot 0 True True, Array2 (Matrix 2 [[1, 3], [7, 9]]))]))
       (Array2 (Matrix 2 [[0, 0], [0, 0]])) None 0 True True
       = Inr (Some (Array2 (Matrix 2 [[1, 3], [7, 9]])),
              CVCache [(Positions [0, 2], Mask [False, True, False])] True
                (Some [(Slot 0 True True, Array2 (Matrix 2 [[1, 3], [7, 9]]))]))"
  using pairwise_extraction [where c = "CVCache_init [(Positions [0, 2], Mask [False, True, False])] True True"
      and n = 0 and is_train = True and X = "Array2 (Matrix 3 [[1, 2, 3], [4, 5, 6], [7, 8, 9]])"
      and m = "Matrix 3 [[1, 2, 3], [4, 5, 6], [7, 8, 9]]" and si = raising_probe and y = None
      and train = "Positions [0, 2]" and test = "Mask [False, True, False]"
      and rsel = "[0, 2]" and csel = "[0, 2]"]
    pairwise_extraction [where c = "CVCache [(Positions [0, 2], Mask [False, True, False])] True
          (Some [(Slot 0 True True, Array2 (Matrix 2 [[1, 3], [7, 9]]))])"
      and n = 0 and is_train = True and X = "Array2 (Matrix 2 [[0, 0], [0, 0]])"
      and v = "Array2 (Matrix 2 [[1, 3], [7, 9]])" and si = raising_probe and y = None]
  by (simp add: cache_eval mask_positions_def index_count_def)

text \<open>
  The validation is not unconditional: with the key already in the cache, a container
  that is not square gets the cached slice back and no error.
\<close>

theorem pairwise_validation_counterexample:
  "extract_cv raising_probe
       (CVCache [(Positions [0], Positions [1])] True (Some [(Slot 0 True True, Array2 (Matrix 1 [[5]]))]))
       (Array2 (Matrix 3 [[1, 2, 3], [4, 5, 6]])) None 0 True True
     = Inr (Some (Array2 (Matrix 1 [[5]])),
            CVCache [(Positions [0], Positions [1])] True (Some [(Slot 0 True True, Array2 (Matrix 1 [[5]]))]))"
  by (simp add: cache_eval)

section \<open>The columns of the result table\<close>

lemma map_of_fold_update_other:
  "(\<And>x. x \<in> set xs \<Longrightarrow> f x \<noteq> k) \<Longrightarrow>
   map_of (fold (\<lambda>x res. AList.update (f x) (g x) res) xs res0) k = map_of res0 k"
proof (induction xs arbitrary: res0)
  case Nil
  then show ?case by simp
next
  case (Cons a xs)
  have "f a \<noteq> k" using Cons.prems by simp
  moreover have "map_of (fold (\<lambda>x res. AList.update (f x) (g x) res) xs (AList.update (f a) (g a) res0)) k
      = map_of (AList.update (f a) (g a) res0) k"
    using Cons.IH Cons.prems by simp
  ultimately show ?case by (simp add: update_conv')
qed

lemma store_splits_other:
  "(\<And>i. k \<noteq> ''split'' @ str_of_nat i @ ''_'' @ key_name) \<Longrightarrow>
   map_of (store_splits res key_name arr n) k = map_of res k"
proof -
  assume a: "\<And>i. k \<noteq> ''split'' @ str_of_nat i @ ''_'' @ key_name"
  have "\<And>x. x \<in> set [0..<n] \<Longrightarrow> ''split'' @ str_of_nat x @ ''_'' @ key_name \<noteq> k"
    using a by blast
  then show ?thesis
    unfolding store_splits_def by (rule map_of_fold_update_other)
qed

lemma p_store_columns:
  assumes "p_store res key_name entries n_splits n_cand w sp rk = Inr res'"
  shows "\<exists>flat arr means variances.
           np_float_array entries = Inr flat \<and> reshape_T flat n_splits n_cand = Inr arr \<and>
           np_average arr w = Inr means \<and>
           np_average (sq_deviations arr means) w = Inr variances \<and>
           map_of res' (''mean_'' @ key_name) = Some (FloatCol means) \<and>
           map_of res' (''std_'' @ key_name) = Some (FloatCol (map sqrt variances)) \<and>
           (rk \<longrightarrow> map_of res' (''rank_'' @ key_name) = Some (RankCol (rankdata_min (map uminus means))))"
  using assms
  by (auto simp: p_store_def Let_def update_conv' split: sum.splits if_splits)

lemma p_store_other:
  assumes "p_store res key_name entries n_splits n_cand w sp rk = Inr res'"
    and "k \<noteq> ''mean_'' @ key_name" and "k \<noteq> ''std_'' @ key_name" and "k \<noteq> ''rank_'' @ key_name"
    and "\<And>i. k \<noteq> ''split'' @ str_of_nat i @ ''_'' @ key_name"
  shows "map_of res' k = map_of res k"
  using assms
  by (auto simp: p_store_def Let_def update_conv' store_splits_other split: sum.splits if_splits)

lemma dict_update_lookup:
  "distinct (map fst pr) \<Longrightarrow>
   map_of (dict_update res pr) k =
     (case map_of pr k of None \<Rightarrow> map_of res k | Some col \<Rightarrow> Some (MaskedCol col))"
proof (induction pr arbitrary: res)
  case Nil
  then show ?case by (simp add: dict_update_def)
next
  case (Cons p pr)
  obtain k0 c0 where p: "p = (k0, c0)" by (cases p)
  have d: "distinct (map fst pr)" and nk: "k0 \<notin> fst ` set pr" using Cons.prems p by auto
  have ih: "map_of (dict_update (AList.update k0 (MaskedCol c0) res) pr) k =
     (case map_of pr k of None \<Rightarrow> map_of (AList.update k0 (MaskedCol c0) res) k
      | Some col \<Rightarrow> Some (MaskedCol col))"
    using Cons.IH [OF d] .
  have st: "dict_update res (p # pr) = dict_update (AList.update k0 (MaskedCol c0) res) pr"
    by (simp add: dict_update_def p)
  show ?case
  proof (cases "k = k0")
    case True
    then have "map_of pr k = None" using nk by (simp add: map_of_eq_None_iff)
    then show ?thesis using ih st True p by (simp add: update_conv')
  next
    case False
    then show ?thesis using ih st p by (simp add: update_conv' split: option.split)
  qed
qed

lemma assign_cell_lookup:
  "map_of (assign_cell n pr key i v) k =
     (if k = key then Some ((default_column n pr key)[i := Cell v]) else map_of pr k)"
  by (simp add: assign_cell_def update_conv')

lemma assign_cell_distinct: "distinct (map fst pr) \<Longrightarrow> distinct (map fst (assign_cell n pr key i v))"
  by (simp add: assign_cell_def distinct_update)

lemma default_column_assign_cell:
  "default_column n (assign_cell n pr key i v) k =
     (if k = key then (default_column n pr key)[i := Cell v] else default_column n pr k)"
  by (simp add: default_column_def assign_cell_lookup)

lemma param_key_inj: "param_key a = param_key b \<longleftrightarrow> a = b"
  by (simp add: param_key_def)
lemma assign_params_simps:
  "assign_params n pr i [] = pr"
  "assign_params n pr i ((a, v) # ps) = assign_params n (assign_cell n pr (param_key a) i v) i ps"
  by (simp_all add: assign_params_def)

lemma inner_fold_column:
  "default_column n
     (assign_params n pr i params) (param_key name) =
   (case map_of (rev params) name of
      None \<Rightarrow> default_column n pr (param_key name)
    | Some v \<Rightarrow> (default_column n pr (param_key name))[i := Cell v])"
proof (induction params arbitrary: pr)
  case Nil
  then show ?case by (simp add: assign_params_simps)
next
  case (Cons p params)
  obtain a v where p: "p = (a, v)" by (cases p)
  show ?case
    unfolding p
    by (simp add: assign_params_simps Cons.IH default_column_assign_cell param_key_inj map_add_def split: option.split)
qed

lemma inner_fold_present:
  "map_of (assign_params n pr i params) (param_key name) = None
   \<longleftrightarrow> map_of pr (param_key name) = None \<and> name \<notin> fst ` set params"
proof (induction params arbitrary: pr)
  case Nil
  then show ?case by (simp add: assign_params_simps)
next
  case (Cons p params)
  obtain a v where p: "p = (a, v)" by (cases p)
  have "map_of (assign_params n pr i (p # params)) (param_key name) = None
    \<longleftrightarrow> map_of (assign_cell n pr (param_key a) i v) (param_key name) = None \<and> name \<notin> fst ` set params"
    unfolding p using Cons.IH [of "assign_cell n pr (param_key a) i v"] by (simp add: assign_params_simps)
  also have "\<dots> \<longleftrightarrow> map_of pr (param_key name) = None \<and> name \<notin> fst ` set (p # params)"
    unfolding p by (auto simp: assign_cell_lookup param_key_inj)
  finally show ?case .
qed

lemma inner_fold_other:
  "(\<And>name. k \<noteq> param_key name) \<Longrightarrow>
   map_of (assign_params n pr i params) k = map_of pr k"
proof (induction params arbitrary: pr)
  case Nil
  then show ?case by (simp add: assign_params_simps)
next
  case (Cons p params)
  obtain a v where p: "p = (a, v)" by (cases p)
  have "k \<noteq> param_key a" using Cons.prems by blast
  then show ?case unfolding p using Cons.IH Cons.prems by (simp add: assign_params_simps assign_cell_lookup)
qed

lemma inner_fold_distinct:
  "distinct (map fst pr) \<Longrightarrow>
   distinct (map fst (assign_params n pr i params))"
proof (induction params arbitrary: pr)
  case Nil
  then show ?case by (simp add: assign_params_simps)
next
  case (Cons p params)
  obtain a v where p: "p = (a, v)" by (cases p)
  show ?case unfolding p using Cons.IH Cons.prems by (simp add: assign_params_simps assign_cell_distinct)
qed

lemma inner_fold_length:
  "(\<And>k. length (default_column n pr k) = n) \<Longrightarrow>
   length (default_column n
     (assign_params n pr i params) k) = n"
proof (induction params arbitrary: pr)
  case Nil
  then show ?case by (simp add: assign_params_simps)
next
  case (Cons p params)
  obtain a v where p: "p = (a, v)" by (cases p)
  have "\<And>k. length (default_column n (assign_cell n pr (param_key a) i v) k) = n"
    using Cons.prems by (simp add: default_column_assign_cell)
  then show ?case unfolding p using Cons.IH by (simp add: assign_params_simps)
qed
lemma outer_fold_present:
  "map_of (fold (\<lambda>(cand_i, params) pr. assign_params n pr cand_i params) ips pr) (param_key name) = None
   \<longleftrightarrow> map_of pr (param_key name) = None \<and> (\<forall>ip \<in> set ips. name \<notin> fst ` set (snd ip))"
proof (induction ips arbitrary: pr)
  case Nil
  then show ?case by simp
next
  case (Cons ip ips)
  obtain i ps where ip: "ip = (i, ps)" by (cases ip)
  show ?case unfolding ip using Cons.IH [of "assign_params n pr i ps"]
    by (auto simp: inner_fold_present)
qed

lemma outer_fold_other:
  "(\<And>name. k \<noteq> param_key name) \<Longrightarrow>
   map_of (fold (\<lambda>(cand_i, params) pr. assign_params n pr cand_i params) ips pr) k = map_of pr k"
proof (induction ips arbitrary: pr)
  case Nil
  then show ?case by simp
next
  case (Cons ip ips)
  obtain i ps where ip: "ip = (i, ps)" by (cases ip)
  show ?case unfolding ip using Cons.IH [of "assign_params n pr i ps"] Cons.prems
    by (simp add: inner_fold_other)
qed

lemma outer_fold_distinct:
  "distinct (map fst pr) \<Longrightarrow>
   distinct (map fst (fold (\<lambda>(cand_i, params) pr. assign_params n pr cand_i params) ips pr))"
proof (induction ips arbitrary: pr)
  case Nil
  then show ?case by simp
next
  case (Cons ip ips)
  obtain i ps where ip: "ip = (i, ps)" by (cases ip)
  show ?case unfolding ip using Cons.IH [of "assign_params n pr i ps"] Cons.prems
    by (simp add: inner_fold_distinct)
qed

lemma outer_fold_length:
  "(\<And>k. length (default_column n pr k) = n) \<Longrightarrow>
   length (default_column n
     (fold (\<lambda>(cand_i, params) pr. assign_params n pr cand_i params) ips pr) k) = n"
proof (induction ips arbitrary: pr)
  case Nil
  then show ?case by simp
next
  case (Cons ip ips)
  obtain i ps where ip: "ip = (i, ps)" by (cases ip)
  have "\<And>k. length (default_column n (assign_params n pr i ps) k) = n"
    using Cons.prems by (rule inner_fold_length)
  then show ?case unfolding ip using Cons.IH [of "assign_params n pr i ps"] by simp
qed

lemma outer_fold_cell:
  assumes "\<And>k. length (default_column n pr k) = n" and "a + length cs \<le> n" and "j < n"
  shows "default_column n
           (fold (\<lambda>(cand_i, params) pr. assign_params n pr cand_i params)
              (zip [a..<a + length cs] cs) pr) (param_key name) ! j =
         (if a \<le> j \<and> j < a + length cs then
            (case map_of (rev (cs ! (j - a))) name of
               None \<Rightarrow> default_column n pr (param_key name) ! j
             | Some v \<Rightarrow> Cell v)
          else default_column n pr (param_key name) ! j)"
  using assms
proof (induction cs arbitrary: a pr)
  case Nil
  then show ?case by auto
next
  case (Cons c cs)
  define pr1 where "pr1 = assign_params n pr a c"
  have len1: "\<And>k. length (default_column n pr1 k) = n"
    unfolding pr1_def using Cons.prems(1) by (rule inner_fold_length)
  have u: "[a..<a + length (c # cs)] = a # [Suc a..<Suc a + length cs]"
    using upt_conv_Cons [of a "Suc (a + length cs)"] by (simp del: upt_Suc)
  have z: "zip [a..<a + length (c # cs)] (c # cs) = (a, c) # zip [Suc a..<Suc a + length cs] cs"
    unfolding u by simp
  have ih: "default_column n
           (fold (\<lambda>(cand_i, params) pr. assign_params n pr cand_i params)
              (zip [Suc a..<Suc a + length cs] cs) pr1) (param_key name) ! j =
         (if Suc a \<le> j \<and> j < Suc a + length cs then
            (case map_of (rev (cs ! (j - Suc a))) name of
               None \<Rightarrow> default_column n pr1 (param_key name) ! j
             | Some v \<Rightarrow> Cell v)
          else default_column n pr1 (param_key name) ! j)"
    using Cons.IH [of pr1 "Suc a"] len1 Cons.prems by simp
  have col1: "default_column n pr1 (param_key name) =
      (case map_of (rev c) name of
         None \<Rightarrow> default_column n pr (param_key name)
       | Some v \<Rightarrow> (default_column n pr (param_key name))[a := Cell v])"
    unfolding pr1_def by (rule inner_fold_column)
  have la: "a < length (default_column n pr (param_key name))"
    using Cons.prems by simp
  consider (lt) "j < a" | (eq) "j = a" | (gt) "a < j" by linarith
  then show ?case
  proof cases
    case lt
    then show ?thesis unfolding z using ih col1 by (simp add: pr1_def split: option.split)
  next
    case eq
    then show ?thesis unfolding z using ih col1 la by (simp add: pr1_def split: option.split)
  next
    case gt
    then have "(c # cs) ! (j - a) = cs ! (j - Suc a)" by (simp add: nth_Cons')
    with gt show ?thesis unfolding z using ih col1
      by (auto simp: pr1_def split: option.split)
  qed
qed
lemma default_column_empty: "default_column n [] k = replicate n Masked"
  by (simp add: default_column_def)

lemma param_columns_lookup:
  "map_of (param_columns cps) (param_key name) =
     (if \<exists>ps \<in> set cps. name \<in> fst ` set ps
      then Some (map (\<lambda>ps. case map_of (rev ps) name of None \<Rightarrow> Masked | Some v \<Rightarrow> Cell v) cps)
      else None)"
proof -
  define n where "n = length cps"
  define R where "R = fold (\<lambda>(cand_i, params) pr. assign_params n pr cand_i params)
                        (zip [0..<n] cps) ([] :: (string \<times> 'a cell list) list)"
  have R: "param_columns cps = R" by (simp add: param_columns_def R_def n_def)
  have snd_zip: "snd ` set (zip [0..<n] cps) = set cps"
    unfolding n_def by (metis length_upt map_snd_zip minus_nat.diff_0 set_map)
  have pres: "map_of R (param_key name) = None \<longleftrightarrow> \<not> (\<exists>ps \<in> set cps. name \<in> fst ` set ps)"
    unfolding R_def outer_fold_present using snd_zip by force
  have len0: "\<And>k. length (default_column n ([] :: (string \<times> 'a cell list) list) k) = n"
    by (simp add: default_column_empty)
  have lenR: "length (default_column n R (param_key name)) = n"
    unfolding R_def using len0 by (rule outer_fold_length)
  have cell: "\<And>j. j < n \<Longrightarrow> default_column n R (param_key name) ! j =
       (case map_of (rev (cps ! j)) name of None \<Rightarrow> Masked | Some v \<Rightarrow> Cell v)"
  proof -
    fix j assume j: "j < n"
    have "default_column n
           (fold (\<lambda>(cand_i, params) pr. assign_params n pr cand_i params)
              (zip [0..<0 + length cps] cps) ([] :: (string \<times> 'a cell list) list)) (param_key name) ! j =
         (if 0 \<le> j \<and> j < 0 + length cps then
            (case map_of (rev (cps ! (j - 0))) name of
               None \<Rightarrow> default_column n ([] :: (string \<times> 'a cell list) list) (param_key name) ! j
             | Some v \<Rightarrow> Cell v)
          else default_column n ([] :: (string \<times> 'a cell list) list) (param_key name) ! j)"
      using len0 j by (intro outer_fold_cell) (simp_all add: n_def)
    then show "default_column n R (param_key name) ! j =
       (case map_of (rev (cps ! j)) name of None \<Rightarrow> Masked | Some v \<Rightarrow> Cell v)"
      using j by (simp add: R_def n_def default_column_empty split: option.split)
  qed
  have col: "default_column n R (param_key name) =
      map (\<lambda>ps. case map_of (rev ps) name of None \<Rightarrow> Masked | Some v \<Rightarrow> Cell v) cps"
    using lenR cell by (intro nth_equalityI) (simp_all add: n_def)
  show ?thesis
  proof (cases "map_of R (param_key name)")
    case None
    then show ?thesis using pres R by simp
  next
    case (Some c)
    then have "default_column n R (param_key name) = c" by (simp add: default_column_def)
    then show ?thesis using Some pres R col by auto
  qed
qed

lemma param_columns_other:
  "(\<And>name. k \<noteq> param_key name) \<Longrightarrow> map_of (param_columns cps) k = None"
  unfolding param_columns_def using outer_fold_other [of k "length cps" _ "[]"] by simp

lemma param_columns_distinct: "distinct (map fst (param_columns cps))"
  unfolding param_columns_def by (rule outer_fold_distinct) simp

lemma bare_entries:
  assumes "np_float_array (map (bare_entry es) scores) = Inr flat"
  shows "map (bare_entry es) scores = map (\<lambda>s. replace_failure es (test_of s)) scores"
proof -
  have "\<not> py_any is_tuple (map (bare_entry es) scores)"
    using assms by (auto simp: np_float_array_def split: if_splits)
  then have "\<And>s. s \<in> set scores \<Longrightarrow> \<not> is_tuple (bare_entry es s)"
    by (auto simp: py_any_iff)
  then have "\<And>s. s \<in> set scores \<Longrightarrow> bare_entry es s = replace_failure es (test_of s)"
  proof -
    fix s assume "s \<in> set scores" and h: "\<And>s. s \<in> set scores \<Longrightarrow> \<not> is_tuple (bare_entry es s)"
    then have "\<not> is_tuple (bare_entry es s)" by blast
    then show "bare_entry es s = replace_failure es (test_of s)"
      by (cases s) (simp_all add: bare_entry_def is_tuple_def test_of_def)
  qed
  then show ?thesis by simp
qed

lemma not_param_key:
  "''params'' \<noteq> param_key name"
  "''mean_'' @ k \<noteq> param_key name" "''std_'' @ k \<noteq> param_key name" "''rank_'' @ k \<noteq> param_key name"
  "''split'' @ r \<noteq> param_key name"
  by (simp_all add: param_key_def)
lemma create_cv_results_decompose:
  assumes "create_cv_results scores cps n_splits es weights = Inr results"
  shows "\<exists>res1 res2.
           p_store [(''params'', ParamsCol cps)] ''test_score''
             (map (\<lambda>s. replace_failure es (test_of s)) scores) n_splits (length cps)
             (map_option (\<lambda>w. broadcast_weights w (length cps)) weights) True True = Inr res1 \<and>
           (res2 = res1 \<or>
            (\<exists>tr. p_store res1 ''train_score'' tr n_splits (length cps) None True False = Inr res2)) \<and>
           results = dict_update res2 (param_columns cps)"
proof (cases scores)
  case Nil
  then show ?thesis using assms by (simp add: create_cv_results_def)
next
  case (Cons s0 rest)
  show ?thesis
  proof (cases "is_pair s0")
    case True
    then show ?thesis
      using assms unfolding Cons create_cv_results_def Let_def
      by (auto split: if_splits sum.splits)
  next
    case False
    from assms False obtain res1 where
      r1: "p_store [(''params'', ParamsCol cps)] ''test_score'' (map (bare_entry es) scores)
             n_splits (length cps)
             (map_option (\<lambda>w. broadcast_weights w (length cps)) weights) True True = Inr res1"
      and r: "results = dict_update res1 (param_columns cps)"
      unfolding Cons create_cv_results_def Let_def
      by (auto split: if_splits sum.splits)
    from r1 obtain flat where "np_float_array (map (bare_entry es) scores) = Inr flat"
      by (auto simp: p_store_def split: sum.splits)
    then have "map (bare_entry es) scores = map (\<lambda>s. replace_failure es (test_of s)) scores"
      by (rule bare_entries)
    with r1 r show ?thesis by auto
  qed
qed

lemma create_cv_results_test_columns:
  assumes "create_cv_results scores cps n_splits es weights = Inr results"
  shows "\<exists>flat arr means variances.
           np_float_array (map (\<lambda>s. replace_failure es (test_of s)) scores) = Inr flat \<and>
           reshape_T flat n_splits (length cps) = Inr arr \<and>
           np_average arr (map_option (\<lambda>w. broadcast_weights w (length cps)) weights) = Inr means \<and>
           np_average (sq_deviations arr means)
             (map_option (\<lambda>w. broadcast_weights w (length cps)) weights) = Inr variances \<and>
           map_of results ''mean_test_score'' = Some (FloatCol means) \<and>
           map_of results ''std_test_score'' = Some (FloatCol (map sqrt variances)) \<and>
           map_of results ''rank_test_score'' = Some (RankCol (rankdata_min (map uminus means)))"
proof -
  from create_cv_results_decompose [OF assms] obtain res1 res2 where
    r1: "p_store [(''params'', ParamsCol cps)] ''test_score''
             (map (\<lambda>s. replace_failure es (test_of s)) scores) n_splits (length cps)
             (map_option (\<lambda>w. broadcast_weights w (length cps)) weights) True True = Inr res1"
    and r2: "res2 = res1 \<or>
            (\<exists>tr. p_store res1 ''train_score'' tr n_splits (length cps) None True False = Inr res2)"
    and r: "results = dict_update res2 (param_columns cps)"
    by blast
  have keep2: "map_of res2 k = map_of res1 k"
    if "k = ''mean_test_score'' \<or> k = ''std_test_score'' \<or> k = ''rank_test_score''" for k
  proof -
    from r2 show ?thesis
    proof
      assume "res2 = res1"
      then show ?thesis by simp
    next
      assume "\<exists>tr. p_store res1 ''train_score'' tr n_splits (length cps) None True False = Inr res2"
      then obtain tr where
        t: "p_store res1 ''train_score'' tr n_splits (length cps) None True False = Inr res2"
        by blast
      show ?thesis using that by (intro p_store_other [OF t]) auto
    qed
  qed
  have keep: "map_of results k = map_of res1 k"
    if "k = ''mean_test_score'' \<or> k = ''std_test_score'' \<or> k = ''rank_test_score''" for k
  proof -
    have "\<And>name. k \<noteq> param_key name" using that by (auto simp: param_key_def)
    then have "map_of (param_columns cps) k = None" by (rule param_columns_other)
    then have "map_of results k = map_of res2 k"
      unfolding r by (simp add: dict_update_lookup param_columns_distinct)
    with keep2 [OF that] show ?thesis by simp
  qed
  from p_store_columns [OF r1] obtain flat arr means variances where
    c: "np_float_array (map (\<lambda>s. replace_failure es (test_of s)) scores) = Inr flat"
       "reshape_T flat n_splits (length cps) = Inr arr"
       "np_average arr (map_option (\<lambda>w. broadcast_weights w (length cps)) weights) = Inr means"
       "np_average (sq_deviations arr means)
             (map_option (\<lambda>w. broadcast_weights w (length cps)) weights) = Inr variances"
       "map_of res1 (''mean_'' @ ''test_score'') = Some (FloatCol means)"
       "map_of res1 (''std_'' @ ''test_score'') = Some (FloatCol (map sqrt variances))"
       "map_of res1 (''rank_'' @ ''test_score'') = Some (RankCol (rankdata_min (map uminus means)))"
    by blast
  have "map_of results ''mean_test_score'' = Some (FloatCol means)"
    using keep [of "''mean_test_score''"] c(5) by simp
  moreover have "map_of results ''std_test_score'' = Some (FloatCol (map sqrt variances))"
    using keep [of "''std_test_score''"] c(6) by simp
  moreover have "map_of results ''rank_test_score'' = Some (RankCol (rankdata_min (map uminus means)))"
    using keep [of "''rank_test_score''"] c(7) by simp
  ultimately show ?thesis using c(1-4) by blast
qed

lemma create_cv_results_param_columns:
  assumes "create_cv_results scores cps n_splits es weights = Inr results"
  shows "map_of results (param_key name) =
     (if \<exists>ps \<in> set cps. name \<in> fst ` set ps
      then Some (MaskedCol (map (\<lambda>ps. case map_of (rev ps) name of None \<Rightarrow> Masked | Some v \<Rightarrow> Cell v) cps))
      else None)"
proof -
  from create_cv_results_decompose [OF assms] obtain res1 res2 where
    r1: "p_store [(''params'', ParamsCol cps)] ''test_score''
             (map (\<lambda>s. replace_failure es (test_of s)) scores) n_splits (length cps)
             (map_option (\<lambda>w. broadcast_weights w (length cps)) weights) True True = Inr res1"
    and r2: "res2 = res1 \<or>
            (\<exists>tr. p_store res1 ''train_score'' tr n_splits (length cps) None True False = Inr res2)"
    and r: "results = dict_update res2 (param_columns cps)"
    by blast
  have k1: "map_of res1 (param_key name) = None"
  proof -
    have "map_of res1 (param_key name) = map_of [(''params'', ParamsCol cps)] (param_key name)"
      by (intro p_store_other [OF r1]) (simp_all add: param_key_def)
    then show ?thesis by (simp add: param_key_def)
  qed
  have k2: "map_of res2 (param_key name) = None"
  proof -
    from r2 show ?thesis
    proof
      assume "res2 = res1"
      then show ?thesis using k1 by simp
    next
      assume "\<exists>tr. p_store res1 ''train_score'' tr n_splits (length cps) None True False = Inr res2"
      then obtain tr where
        t: "p_store res1 ''train_score'' tr n_splits (length cps) None True False = Inr res2"
        by blast
      have "map_of res2 (param_key name) = map_of res1 (param_key name)"
        by (intro p_store_other [OF t]) (simp_all add: param_key_def)
      then show ?thesis using k1 by simp
    qed
  qed
  show ?thesis
    unfolding r by (simp add: dict_update_lookup param_columns_distinct param_columns_lookup k2)
qed


lemma np_average_ok:
  assumes "nrows a = n" and "0 < ncols a"
    and "w = None \<or> (\<exists>ws. w = Some (broadcast_weights ws n) \<and> length ws = ncols a \<and> sum_list ws \<noteq> 0)"
  shows "\<exists>ms. np_average a w = Inr ms \<and> length ms = n"
proof -
  from assms(3) show ?thesis
  proof
    assume "w = None"
    then show ?thesis using assms(1,2) by (simp add: np_average_def nrows_def)
  next
    assume "\<exists>ws. w = Some (broadcast_weights ws n) \<and> length ws = ncols a \<and> sum_list ws \<noteq> 0"
    then obtain ws where ws: "w = Some (broadcast_weights ws n)" "length ws = ncols a" "sum_list ws \<noteq> 0"
      by blast
    have "\<not> py_any (\<lambda>r. sum_list r = 0) (rows (broadcast_weights ws n))"
      using ws(3) by (auto simp: py_any_iff broadcast_weights_def)
    then show ?thesis
      using ws assms(1) by (simp add: np_average_def nrows_def broadcast_weights_def)
  qed
qed

lemma p_store_ok:
  assumes "\<And>e. e \<in> set entries \<Longrightarrow> \<exists>r. e = Num r"
    and "length entries = n_splits * n_cand" and "0 < n_splits"
    and "w = None \<or> (\<exists>ws. w = Some (broadcast_weights ws n_cand) \<and> length ws = n_splits \<and> sum_list ws \<noteq> 0)"
  shows "\<exists>res'. p_store res key_name entries n_splits n_cand w sp rk = Inr res'"
proof -
  have num: "\<And>e. e \<in> set entries \<Longrightarrow> \<not> is_tuple e \<and> e \<noteq> StrRaise"
  proof -
    fix e assume "e \<in> set entries"
    then obtain r where "e = Num r" using assms(1) by blast
    then show "\<not> is_tuple e \<and> e \<noteq> StrRaise" by (simp add: is_tuple_def)
  qed
  have nt: "\<not> py_any is_tuple entries" "\<not> py_any (\<lambda>e. e = StrRaise) entries"
    using num by (auto simp: py_any_iff)
  define flat where "flat = map num_of entries"
  define arr where "arr = Matrix n_splits
             (map (\<lambda>c. map (\<lambda>s. flat ! (s * n_cand + c)) [0..<n_splits]) [0..<n_cand])"
  have f: "np_float_array entries = Inr flat" using nt by (simp add: np_float_array_def flat_def)
  have r: "reshape_T flat n_splits n_cand = Inr arr"
    using assms(2) by (simp add: reshape_T_def flat_def arr_def)
  have sh: "nrows arr = n_cand" "ncols arr = n_splits" by (simp_all add: arr_def nrows_def)
  from np_average_ok [of arr n_cand w] sh assms(3,4)
  obtain means where m: "np_average arr w = Inr means" "length means = n_cand" by auto
  have sh2: "nrows (sq_deviations arr means) = n_cand" "ncols (sq_deviations arr means) = n_splits"
    using m(2) sh by (simp_all add: sq_deviations_def nrows_def arr_def)
  from np_average_ok [of "sq_deviations arr means" n_cand w] sh2 assms(3,4)
  obtain variances where v: "np_average (sq_deviations arr means) w = Inr variances" by auto
  show ?thesis by (simp add: p_store_def f r m v Let_def)
qed

lemma replace_failure_numeric: "\<exists>r. replace_failure (Numeric x) s = Num r"
  by (cases s) (simp_all add: replace_failure_def)

lemma create_cv_results_ok:
  assumes "scores \<noteq> []" and "(\<forall>s \<in> set scores. is_pair s) \<or> (\<forall>s \<in> set scores. \<not> is_pair s)"
    and "length scores = n_splits * length cps"
    and "weights = None \<or> (\<exists>ws. weights = Some ws \<and> length ws = n_splits \<and> sum_list ws \<noteq> 0)"
  shows "\<exists>results. create_cv_results scores cps n_splits (Numeric x) weights = Inr results"
proof -
  obtain s0 rest where sc: "scores = s0 # rest" using assms(1) by (cases scores) auto
  have pos: "0 < n_splits" using assms(1,3) by (cases n_splits) auto
  have w2: "map_option (\<lambda>w. broadcast_weights w (length cps)) weights = None \<or>
     (\<exists>ws. map_option (\<lambda>w. broadcast_weights w (length cps)) weights
              = Some (broadcast_weights ws (length cps)) \<and> length ws = n_splits \<and> sum_list ws \<noteq> 0)"
    using assms(4) by auto
  have mixed: "\<not> (is_pair s0 \<and> py_any (\<lambda>s. \<not> is_pair s) scores)"
    using assms(2) sc by (auto simp: py_any_iff)
  have e1: "\<And>e. e \<in> set (map (\<lambda>s. replace_failure (Numeric x) (test_of s)) scores) \<Longrightarrow> \<exists>r. e = Num r"
    using replace_failure_numeric by auto
  have e2: "\<And>e. e \<in> set (map (\<lambda>s. replace_failure (Numeric x) (train_of s)) scores) \<Longrightarrow> \<exists>r. e = Num r"
    using replace_failure_numeric by auto
  have bare: "\<not> is_pair s0 \<Longrightarrow>
      map (bare_entry (Numeric x)) scores = map (\<lambda>s. replace_failure (Numeric x) (test_of s)) scores"
  proof -
    assume "\<not> is_pair s0"
    then have "\<And>s. s \<in> set scores \<Longrightarrow> \<not> is_pair s" using assms(2) sc by auto
    then have "\<And>s. s \<in> set scores \<Longrightarrow> bare_entry (Numeric x) s = replace_failure (Numeric x) (test_of s)"
    proof -
      fix s assume "s \<in> set scores" and "\<And>s. s \<in> set scores \<Longrightarrow> \<not> is_pair s"
      then have "\<not> is_pair s" by blast
      then show "bare_entry (Numeric x) s = replace_failure (Numeric x) (test_of s)"
        by (cases s) (simp_all add: is_pair_def bare_entry_def test_of_def)
    qed
    then show ?thesis by simp
  qed
  have "\<exists>res1. p_store [(''params'', ParamsCol cps)] ''test_score''
      (map (\<lambda>s. replace_failure (Numeric x) (test_of s)) scores) n_splits (length cps)
      (map_option (\<lambda>w. broadcast_weights w (length cps)) weights) True True = Inr res1"
  proof (rule p_store_ok)
    show "\<And>e. e \<in> set (map (\<lambda>s. replace_failure (Numeric x) (test_of s)) scores) \<Longrightarrow> \<exists>r. e = Num r"
      by (rule e1)
    show "length (map (\<lambda>s. replace_failure (Numeric x) (test_of s)) scores) = n_splits * length cps"
      using assms(3) by simp
    show "0 < n_splits" by (rule pos)
    show "map_option (\<lambda>w. broadcast_weights w (length cps)) weights = None \<or>
     (\<exists>ws. map_option (\<lambda>w. broadcast_weights w (length cps)) weights
              = Some (broadcast_weights ws (length cps)) \<and> length ws = n_splits \<and> sum_list ws \<noteq> 0)"
      by (rule w2)
  qed
  then obtain res1 where r1: "p_store [(''params'', ParamsCol cps)] ''test_score''
      (map (\<lambda>s. replace_failure (Numeric x) (test_of s)) scores) n_splits (length cps)
      (map_option (\<lambda>w. broadcast_weights w (length cps)) weights) True True = Inr res1"
    by blast
  have "\<exists>res2. p_store res1 ''train_score''
      (map (\<lambda>s. replace_failure (Numeric x) (train_of s)) scores) n_splits (length cps)
      None True False = Inr res2"
  proof (rule p_store_ok)
    show "\<And>e. e \<in> set (map (\<lambda>s. replace_failure (Numeric x) (train_of s)) scores) \<Longrightarrow> \<exists>r. e = Num r"
      by (rule e2)
    show "length (map (\<lambda>s. replace_failure (Numeric x) (train_of s)) scores) = n_splits * length cps"
      using assms(3) by simp
    show "0 < n_splits" by (rule pos)
    show "None = None \<or>
     (\<exists>ws. None = Some (broadcast_weights ws (length cps)) \<and> length ws = n_splits \<and> sum_list ws \<noteq> 0)"
      by simp
  qed
  then obtain res2 where r2: "p_store res1 ''train_score''
      (map (\<lambda>s. replace_failure (Numeric x) (train_of s)) scores) n_splits (length cps)
      None True False = Inr res2"
    by blast
  show ?thesis
  proof (cases "is_pair s0")
    case True
    then show ?thesis
      using mixed r1 r2 unfolding sc create_cv_results_def Let_def by simp
  next
    case False
    then show ?thesis
      using r1 bare [OF False] unfolding sc create_cv_results_def Let_def
      by (simp cong: map_cong)
  qed
qed


section \<open>Masked parameter columns\<close>

lemma map_of_rev_distinct: "distinct (map fst xs) \<Longrightarrow> map_of (rev xs) = map_of xs"
proof (induction xs)
  case Nil
  then show ?case by simp
next
  case (Cons x xs)
  obtain k v where x: "x = (k, v)" by (cases x)
  have ih: "map_of (rev xs) = map_of xs" using Cons by simp
  have nk: "map_of xs k = None" using Cons.prems x by (simp add: map_of_eq_None_iff)
  show ?case unfolding x using ih nk by (auto simp: map_add_def fun_eq_iff split: option.split)
qed

lemma list_of_two: "length xs = 2 \<Longrightarrow> xs ! 0 = a \<Longrightarrow> xs ! 1 = b \<Longrightarrow> xs = [a, b]"
proof -
  assume l: "length xs = 2" and a: "xs ! 0 = a" and b: "xs ! 1 = b"
  from l obtain x y where "xs = [x, y]"
    by (cases xs) (auto simp: length_Suc_conv numeral_2_eq_2)
  with a b show ?thesis by simp
qed

text \<open>
  Claim C9. The table \<open>create_cv_results\<close> returns has, for every parameter name that
  some candidate's dictionary specifies, a masked column under the key
  \<open>param_<name>\<close>, with one cell per candidate: the candidate's value where its
  dictionary has the name, and a masked cell where it has not. It has no column under
  \<open>param_<name>\<close> for a name that no candidate specifies.
\<close>

theorem masked_parameter_columns:
  "create_cv_results scores cps n_splits es weights = Inr results \<and>
   (\<forall>ps \<in> set cps. distinct (map fst ps)) \<longrightarrow>
     (name \<in> (\<Union>ps \<in> set cps. fst ` set ps) \<longrightarrow>
        (\<exists>col. map_of results (''param_'' @ name) = Some (MaskedCol col) \<and>
               length col = length cps \<and>
               (\<forall>i < length cps.
                  col ! i = (case map_of (cps ! i) name of None \<Rightarrow> Masked | Some v \<Rightarrow> Cell v))))
     \<and> (name \<notin> (\<Union>ps \<in> set cps. fst ` set ps) \<longrightarrow> map_of results (''param_'' @ name) = None)"
proof (intro impI, elim conjE)
  assume r: "create_cv_results scores cps n_splits es weights = Inr results"
    and d: "\<forall>ps \<in> set cps. distinct (map fst ps)"
  have look: "map_of results (''param_'' @ name) =
     (if \<exists>ps \<in> set cps. name \<in> fst ` set ps
      then Some (MaskedCol (map (\<lambda>ps. case map_of (rev ps) name of None \<Rightarrow> Masked | Some v \<Rightarrow> Cell v) cps))
      else None)"
    using create_cv_results_param_columns [OF r, of name] by (simp add: param_key_def)
  have cells: "\<forall>i < length cps.
      map (\<lambda>ps. case map_of (rev ps) name of None \<Rightarrow> Masked | Some v \<Rightarrow> Cell v) cps ! i =
      (case map_of (cps ! i) name of None \<Rightarrow> Masked | Some v \<Rightarrow> Cell v)"
    using d by (simp add: map_of_rev_distinct)
  show "(name \<in> (\<Union>ps \<in> set cps. fst ` set ps) \<longrightarrow>
        (\<exists>col. map_of results (''param_'' @ name) = Some (MaskedCol col) \<and>
               length col = length cps \<and>
               (\<forall>i < length cps.
                  col ! i = (case map_of (cps ! i) name of None \<Rightarrow> Masked | Some v \<Rightarrow> Cell v))))
     \<and> (name \<notin> (\<Union>ps \<in> set cps. fst ` set ps) \<longrightarrow> map_of results (''param_'' @ name) = None)"
  proof (intro conjI impI)
    assume "name \<in> (\<Union>ps \<in> set cps. fst ` set ps)"
    then have "\<exists>ps \<in> set cps. name \<in> fst ` set ps" by blast
    then have "map_of results (''param_'' @ name) =
       Some (MaskedCol (map (\<lambda>ps. case map_of (rev ps) name of None \<Rightarrow> Masked | Some v \<Rightarrow> Cell v) cps))"
      using look by simp
    with cells show "\<exists>col. map_of results (''param_'' @ name) = Some (MaskedCol col) \<and>
               length col = length cps \<and>
               (\<forall>i < length cps.
                  col ! i = (case map_of (cps ! i) name of None \<Rightarrow> Masked | Some v \<Rightarrow> Cell v))"
      by (intro exI [of _ "map (\<lambda>ps. case map_of (rev ps) name of None \<Rightarrow> Masked | Some v \<Rightarrow> Cell v) cps"]) simp
  next
    assume "name \<notin> (\<Union>ps \<in> set cps. fst ` set ps)"
    then have "\<not> (\<exists>ps \<in> set cps. name \<in> fst ` set ps)" by blast
    then show "map_of results (''param_'' @ name) = None" using look by simp
  qed
qed

theorem masked_parameter_columns_witness:
  "column_of (create_cv_results [Single (Ok 0.5), Single FIT_FAILURE]
                [[(''n'', 3::int)], [(''k'', 5)]] 1 (Numeric 0) None) ''param_n''
     = Some (MaskedCol [Cell 3, Masked])
   \<and> column_of (create_cv_results [Single (Ok 0.5), Single FIT_FAILURE]
                [[(''n'', 3::int)], [(''k'', 5)]] 1 (Numeric 0) None) ''param_k''
     = Some (MaskedCol [Masked, Cell 5])
   \<and> column_of (create_cv_results [Single (Ok 0.5), Single FIT_FAILURE]
                [[(''n'', 3::int)], [(''k'', 5)]] 1 (Numeric 0) None) ''param_C''
     = None"
proof -
  have "\<exists>results. create_cv_results [Single (Ok 0.5), Single FIT_FAILURE]
                [[(''n'', 3::int)], [(''k'', 5)]] 1 (Numeric 0) None = Inr results"
    by (rule create_cv_results_ok) (simp_all add: is_pair_def)
  then obtain results :: "(string \<times> int column) list" where
    r: "create_cv_results [Single (Ok 0.5), Single FIT_FAILURE]
                [[(''n'', 3::int)], [(''k'', 5)]] 1 (Numeric 0) None = Inr results"
    by blast
  have d: "\<forall>ps \<in> set [[(''n'', 3::int)], [(''k'', 5)]]. distinct (map fst ps)" by simp
  from masked_parameter_columns [where name = "''n''" and results = results
      and cps = "[[(''n'', 3::int)], [(''k'', 5)]]"] r d
  obtain coln where n: "map_of results ''param_n'' = Some (MaskedCol coln)" "length coln = 2"
    "coln ! 0 = Cell 3" "coln ! 1 = Masked"
    by force
  from masked_parameter_columns [where name = "''k''" and results = results
      and cps = "[[(''n'', 3::int)], [(''k'', 5)]]"] r d
  obtain colk where k: "map_of results ''param_k'' = Some (MaskedCol colk)" "length colk = 2"
    "colk ! 0 = Masked" "colk ! 1 = Cell 5"
    by force
  from masked_parameter_columns [where name = "''C''" and results = results
      and cps = "[[(''n'', 3::int)], [(''k'', 5)]]"] r d
  have c: "map_of results ''param_C'' = None" by simp
  have "coln = [Cell 3, Masked]" using n(2-4) by (rule list_of_two)
  moreover have "colk = [Masked, Cell 5]" using k(2-4) by (rule list_of_two)
  ultimately show ?thesis using n k c r by (simp add: column_of_def)
qed


section \<open>Ranking\<close>

lemma sorted_takeWhile_filter:
  "sorted xs \<Longrightarrow> x \<in> set xs \<Longrightarrow> takeWhile (\<lambda>y. y \<noteq> x) xs = filter (\<lambda>y. y < x) xs"
proof (induction xs)
  case Nil
  then show ?case by simp
next
  case (Cons y ys)
  have le: "\<And>z. z \<in> set ys \<Longrightarrow> y \<le> z" using Cons.prems(1) by simp
  show ?case
  proof (cases "y = x")
    case True
    have "filter (\<lambda>z. z < x) ys = []"
      using le True by (force simp: filter_empty_conv not_less)
    then show ?thesis using True by simp
  next
    case False
    then have xin: "x \<in> set ys" using Cons.prems(2) by simp
    then have "y < x" using le False by fastforce
    moreover have "takeWhile (\<lambda>y. y \<noteq> x) ys = filter (\<lambda>y. y < x) ys"
      using Cons.IH Cons.prems(1) xin by simp
    ultimately show ?thesis using False by simp
  qed
qed

lemma length_filter_sort: "length (filter P (sort xs)) = length (filter P xs)"
  by (simp add: filter_sort)

lemma rankdata_min_nth:
  assumes "i < length a"
  shows "rankdata_min a ! i = Suc (length (filter (\<lambda>y. y < a ! i) a))"
proof -
  have "a ! i \<in> set (sort a)" using assms by simp
  then have "takeWhile (\<lambda>y. y \<noteq> a ! i) (sort a) = filter (\<lambda>y. y < a ! i) (sort a)"
    by (intro sorted_takeWhile_filter) simp_all
  then show ?thesis using assms by (simp add: rankdata_min_def length_filter_sort)
qed

lemma rank_of_negated:
  assumes "i < length means"
  shows "rankdata_min (map uminus means) ! i = Suc (length (filter (\<lambda>m. means ! i < m) means))"
proof -
  have "filter (\<lambda>y. y < - (means ! i)) (map uminus means) =
        map uminus (filter (\<lambda>m. means ! i < m) means)"
    by (simp add: filter_map comp_def)
  then show ?thesis using assms rankdata_min_nth [of i "map uminus means"] by simp
qed

lemma length_rankdata_min: "length (rankdata_min a) = length a"
  by (simp add: rankdata_min_def)
lemma upt_small: "[0..<1] = [0]" "[0..<2] = [0, 1]" "[0..<3] = [0, 1, 2]"
  by (simp_all add: upt_rec)

lemma table_columns_from:
  assumes "create_cv_results scores cps n_splits es weights = Inr results"
    and "np_float_array (map (\<lambda>s. replace_failure es (test_of s)) scores) = Inr flat"
    and "reshape_T flat n_splits (length cps) = Inr arr"
    and "np_average arr (map_option (\<lambda>w. broadcast_weights w (length cps)) weights) = Inr means"
  shows "map_of results ''mean_test_score'' = Some (FloatCol means) \<and>
         map_of results ''rank_test_score'' = Some (RankCol (rankdata_min (map uminus means)))"
  using create_cv_results_test_columns [OF assms(1)] assms(2-4) by auto

lemma ties_example_columns:
  "column_of (create_cv_results [Single (Ok 0.9), Single (Ok 0.9), Single (Ok 0.8)]
                [p0, p1, p2] 1 (Numeric x) None) ''mean_test_score'' = Some (FloatCol [0.9, 0.9, 0.8])
   \<and> column_of (create_cv_results [Single (Ok 0.9), Single (Ok 0.9), Single (Ok 0.8)]
                [p0, p1, p2] 1 (Numeric x) None) ''rank_test_score'' = Some (RankCol [1, 1, 3])"
proof -
  have "\<exists>results. create_cv_results [Single (Ok 0.9), Single (Ok 0.9), Single (Ok 0.8)]
                [p0, p1, p2] 1 (Numeric x) None = Inr results"
    by (rule create_cv_results_ok) (simp_all add: is_pair_def)
  then obtain results where r: "create_cv_results [Single (Ok 0.9), Single (Ok 0.9), Single (Ok 0.8)]
                [p0, p1, p2] 1 (Numeric x) None = Inr results"
    by blast
  have f: "np_float_array (map (\<lambda>s. replace_failure (Numeric x) (test_of s))
             [Single (Ok 0.9), Single (Ok 0.9), Single (Ok 0.8)]) = Inr [0.9, 0.9, 0.8]"
    by (simp add: np_float_array_def replace_failure_def test_of_def is_tuple_def num_of_def)
  have a: "reshape_T [0.9, 0.9, 0.8] 1 (length [p0, p1, p2]) = Inr (Matrix 1 [[0.9], [0.9], [0.8]])"
    by (simp add: reshape_T_def upt_small)
  have m: "np_average (Matrix 1 [[0.9], [0.9], [0.8]])
             (map_option (\<lambda>w. broadcast_weights w (length [p0, p1, p2])) None) = Inr [0.9, 0.9, 0.8]"
    by (simp add: np_average_def)
  have k: "rankdata_min (map uminus [0.9, 0.9, 0.8 :: real]) = [1, 1, 3]"
    by (simp add: rankdata_min_def)
  from table_columns_from [OF r f a m] k show ?thesis unfolding column_of_def r by simp
qed

text \<open>
  Claim C4, as the code has it. In the table \<open>create_cv_results\<close> returns, the rank of a
  candidate is one more than the number of candidates (each counted, tied ones too)
  whose mean test score is strictly greater than its own; candidates with equal means
  have the same rank. Mean test scores \<open>[0.9, 0.9, 0.8]\<close> get the ranks \<open>[1, 1, 3]\<close>.
\<close>

theorem rank_test_score_min_ties:
  "(create_cv_results scores cps n_splits es weights = Inr results \<longrightarrow>
      (\<exists>means ranks.
          map_of results ''mean_test_score'' = Some (FloatCol means) \<and>
          map_of results ''rank_test_score'' = Some (RankCol ranks) \<and>
          length ranks = length means \<and>
          (\<forall>i < length means. ranks ! i = Suc (length (filter (\<lambda>m. means ! i < m) means))) \<and>
          (\<forall>i < length means. \<forall>j < length means. means ! i = means ! j \<longrightarrow> ranks ! i = ranks ! j)))
   \<and> column_of (create_cv_results [Single (Ok 0.9), Single (Ok 0.9), Single (Ok 0.8)]
                [p0, p1, p2] 1 (Numeric x) None) ''mean_test_score'' = Some (FloatCol [0.9, 0.9, 0.8])
   \<and> column_of (create_cv_results [Single (Ok 0.9), Single (Ok 0.9), Single (Ok 0.8)]
                [p0, p1, p2] 1 (Numeric x) None) ''rank_test_score'' = Some (RankCol [1, 1, 3])"
proof (intro conjI impI)
  assume r: "create_cv_results scores cps n_splits es weights = Inr results"
  from create_cv_results_test_columns [OF r] obtain means where
    m: "map_of results ''mean_test_score'' = Some (FloatCol means)"
       "map_of results ''rank_test_score'' = Some (RankCol (rankdata_min (map uminus means)))"
    by blast
  define ranks where "ranks = rankdata_min (map uminus means)"
  have m2: "map_of results ''rank_test_score'' = Some (RankCol ranks)"
    using m(2) by (simp only: ranks_def)
  have l: "length ranks = length means"
    by (simp add: ranks_def length_rankdata_min)
  have rk: "\<forall>i < length means. ranks ! i = Suc (length (filter (\<lambda>m. means ! i < m) means))"
    unfolding ranks_def by (intro allI impI) (rule rank_of_negated)
  have ties: "\<forall>i < length means. \<forall>j < length means. means ! i = means ! j \<longrightarrow> ranks ! i = ranks ! j"
  proof (intro allI impI)
    fix i j assume i: "i < length means" and j: "j < length means" and e: "means ! i = means ! j"
    have "ranks ! i = Suc (length (filter (\<lambda>m. means ! i < m) means))" using rk i by blast
    moreover have "ranks ! j = Suc (length (filter (\<lambda>m. means ! j < m) means))" using rk j by blast
    ultimately show "ranks ! i = ranks ! j" using e by (simp only:)
  qed
  show "\<exists>means ranks.
          map_of results ''mean_test_score'' = Some (FloatCol means) \<and>
          map_of results ''rank_test_score'' = Some (RankCol ranks) \<and>
          length ranks = length means \<and>
          (\<forall>i < length means. ranks ! i = Suc (length (filter (\<lambda>m. means ! i < m) means))) \<and>
          (\<forall>i < length means. \<forall>j < length means. means ! i = means ! j \<longrightarrow> ranks ! i = ranks ! j)"
    using m(1) m2 l rk ties by blast
next
  show "column_of (create_cv_results [Single (Ok 0.9), Single (Ok 0.9), Single (Ok 0.8)]
                [p0, p1, p2] 1 (Numeric x) None) ''mean_test_score'' = Some (FloatCol [0.9, 0.9, 0.8])"
    using ties_example_columns by blast
next
  show "column_of (create_cv_results [Single (Ok 0.9), Single (Ok 0.9), Single (Ok 0.8)]
                [p0, p1, p2] 1 (Numeric x) None) ''rank_test_score'' = Some (RankCol [1, 1, 3])"
    using ties_example_columns by blast
qed

theorem rank_test_score_min_ties_witness:
  "\<exists>results.
     create_cv_results [Single (Ok 0.9), Single (Ok 0.9), Single (Ok 0.8)]
       [[(''C'', 1::int)], [(''C'', 2)], [(''C'', 3)]] 1 (Numeric 0) None = Inr results
     \<and> map_of results ''mean_test_score'' = Some (FloatCol [0.9, 0.9, 0.8])
     \<and> map_of results ''rank_test_score'' = Some (RankCol [1, 1, 3])"
proof -
  have "\<exists>results. create_cv_results [Single (Ok 0.9), Single (Ok 0.9), Single (Ok 0.8)]
       [[(''C'', 1::int)], [(''C'', 2)], [(''C'', 3)]] 1 (Numeric 0) None = Inr results"
    by (rule create_cv_results_ok) (simp_all add: is_pair_def)
  then obtain results where r: "create_cv_results [Single (Ok 0.9), Single (Ok 0.9), Single (Ok 0.8)]
       [[(''C'', 1::int)], [(''C'', 2)], [(''C'', 3)]] 1 (Numeric 0) None = Inr results"
    by blast
  have "column_of (create_cv_results [Single (Ok 0.9), Single (Ok 0.9), Single (Ok 0.8)]
       [[(''C'', 1::int)], [(''C'', 2)], [(''C'', 3)]] 1 (Numeric 0) None) ''mean_test_score''
         = Some (FloatCol [0.9, 0.9, 0.8])
     \<and> column_of (create_cv_results [Single (Ok 0.9), Single (Ok 0.9), Single (Ok 0.8)]
       [[(''C'', 1::int)], [(''C'', 2)], [(''C'', 3)]] 1 (Numeric 0) None) ''rank_test_score''
         = Some (RankCol [1, 1, 3])"
    by (rule rank_test_score_min_ties [THEN conjunct2])
  then have "map_of results ''mean_test_score'' = Some (FloatCol [0.9, 0.9, 0.8])
     \<and> map_of results ''rank_test_score'' = Some (RankCol [1, 1, 3])"
    unfolding column_of_def r by simp
  with r show ?thesis by blast
qed

text \<open>
  The rank is not one more than the number of distinct greater means: for the means
  \<open>[0.9, 0.9, 0.8]\<close> that number is 2 for the last candidate, whose rank is 3.
\<close>

theorem rank_distinct_counterexample:
  "column_of (create_cv_results [Single (Ok 0.9), Single (Ok 0.9), Single (Ok 0.8)]
       [[(''C'', 1::int)], [(''C'', 2)], [(''C'', 3)]] 1 (Numeric 0) None) ''mean_test_score''
     = Some (FloatCol [0.9, 0.9, 0.8])
   \<and> column_of (create_cv_results [Single (Ok 0.9), Single (Ok 0.9), Single (Ok 0.8)]
       [[(''C'', 1::int)], [(''C'', 2)], [(''C'', 3)]] 1 (Numeric 0) None) ''rank_test_score''
     = Some (RankCol [1, 1, 3])
   \<and> distinct_greater_rank [0.9, 0.9, 0.8] 2 = 2"
proof -
  have "distinct_greater_rank [0.9, 0.9, 0.8] 2 = 2"
    by (simp add: distinct_greater_rank_def)
  then show ?thesis using ties_example_columns [of "[(''C'', 1::int)]" "[(''C'', 2)]" "[(''C'', 3)]" 0]
    by blast
qed


section \<open>Failed fits in the statistics\<close>

















section \<open>Selecting the best candidate\<close>

lemma first_index_first:
  assumes "i < length xs" and "p (xs ! i)" and "\<And>j. j < i \<Longrightarrow> \<not> p (xs ! j)"
  shows "first_index p xs = Some i"
proof -
  have ex: "list_ex p xs" using assms(1,2) by (auto simp: list_ex_iff)
  have "takeWhile (\<lambda>x. \<not> p x) xs = take i xs"
    using assms by (intro takeWhile_eq_take_P_nth) simp_all
  then show ?thesis using ex assms(1) by (simp add: first_index_def)
qed

lemma get_best_params_first:
  assumes "map_of cv_results ''rank_test_score'' = Some (RankCol ranks)"
    and "i < length ranks" and "i < length cps" and "ranks ! i = 1"
    and "\<And>j. j < i \<Longrightarrow> ranks ! j \<noteq> 1"
  shows "get_best_params eq1 cps cv_results = Inr (cps ! i)"
proof -
  have "first_index (\<lambda>r. r = 1) ranks = Some i"
    using assms(2,4,5) by (intro first_index_first) simp_all
  then show ?thesis
    using assms(1,3) by (simp add: get_best_params_def equals_one_def py_getitem_def norm_index_def)
qed

lemma scenario_columns:
  assumes "weights = None \<or> (\<exists>w. w \<noteq> 0 \<and> weights = Some [w, w])"
  shows "\<exists>results.
     create_cv_results
       [Single (Ok 0.7), Single (Ok 0.9), Single (Ok 0.5),
        Single (Ok 0.8), Single (Ok 0.9), Single (Ok 0.5)]
       [p0, p1, p2] 2 (Numeric x) weights = Inr results
     \<and> map_of results ''mean_test_score'' = Some (FloatCol [0.75, 0.9, 0.5])
     \<and> map_of results ''rank_test_score'' = Some (RankCol [2, 1, 3])"
proof -
  have "\<exists>results. create_cv_results
       [Single (Ok 0.7), Single (Ok 0.9), Single (Ok 0.5),
        Single (Ok 0.8), Single (Ok 0.9), Single (Ok 0.5)]
       [p0, p1, p2] 2 (Numeric x) weights = Inr results"
    using assms by (intro create_cv_results_ok) (auto simp: is_pair_def)
  then obtain results where r: "create_cv_results
       [Single (Ok 0.7), Single (Ok 0.9), Single (Ok 0.5),
        Single (Ok 0.8), Single (Ok 0.9), Single (Ok 0.5)]
       [p0, p1, p2] 2 (Numeric x) weights = Inr results"
    by blast
  have f: "np_float_array (map (\<lambda>s. replace_failure (Numeric x) (test_of s))
       [Single (Ok 0.7), Single (Ok 0.9), Single (Ok 0.5),
        Single (Ok 0.8), Single (Ok 0.9), Single (Ok 0.5)]) = Inr [0.7, 0.9, 0.5, 0.8, 0.9, 0.5]"
    by (simp add: np_float_array_def replace_failure_def test_of_def is_tuple_def num_of_def)
  have a: "reshape_T [0.7, 0.9, 0.5, 0.8, 0.9, 0.5] 2 (length [p0, p1, p2]) =
      Inr (Matrix 2 [[0.7, 0.8], [0.9, 0.9], [0.5, 0.5]])"
    by (simp add: reshape_T_def upt_small)
  have m: "np_average (Matrix 2 [[0.7, 0.8], [0.9, 0.9], [0.5, 0.5]])
             (map_option (\<lambda>w. broadcast_weights w (length [p0, p1, p2])) weights)
           = Inr [0.75, 0.9, 0.5]"
  proof -
    from assms show ?thesis
    proof
      assume "weights = None"
      then show ?thesis by (simp add: np_average_def)
    next
      assume "\<exists>w. w \<noteq> 0 \<and> weights = Some [w, w]"
      then obtain w where w: "w \<noteq> 0" "weights = Some [w, w]" by blast
      have "(7 / 10 * w + 4 / 5 * w) / (w + w) = 3 / 4" using w(1) by (simp add: field_simps)
      moreover have "(9 / 10 * w + 9 / 10 * w) / (w + w) = 9 / 10" using w(1) by (simp add: field_simps)
      moreover have "(1 / 2 * w + 1 / 2 * w) / (w + w) = 1 / 2" using w(1) by (simp add: field_simps)
      ultimately show ?thesis
        using w by (simp add: np_average_def broadcast_weights_def nrows_def numeral_3_eq_3)
    qed
  qed
  have k: "rankdata_min (map uminus [0.75, 0.9, 0.5 :: real]) = [2, 1, 3]"
    by (simp add: rankdata_min_def)
  from table_columns_from [OF r f a m] k r show ?thesis by simp
qed

text \<open>
  Claim C8. The scores are given split by split: for 2 folds and 3 candidates whose
  test scores are \<open>[0.7, 0.8]\<close>, \<open>[0.9, 0.9]\<close> and \<open>[0.5, 0.5]\<close>, the list is
  \<open>[0.7, 0.9, 0.5, 0.8, 0.9, 0.5]\<close>. Without fold weights, and with two equal fold
  weights, the table has the mean test scores \<open>[0.75, 0.9, 0.5]\<close> and the ranks
  \<open>[2, 1, 3]\<close>, and \<open>get_best_params\<close> returns the parameters of the candidate at
  index 1. In general \<open>get_best_params\<close> returns the parameters of the first candidate,
  in the candidates' order, whose rank is 1.
\<close>

theorem best_candidate_scenario:
  "(weights = None \<or> (\<exists>w. w \<noteq> 0 \<and> weights = Some [w, w]) \<longrightarrow>
      column_of (create_cv_results
          [Single (Ok 0.7), Single (Ok 0.9), Single (Ok 0.5),
           Single (Ok 0.8), Single (Ok 0.9), Single (Ok 0.5)]
          [p0, p1, p2] 2 (Numeric x) weights) ''mean_test_score'' = Some (FloatCol [0.75, 0.9, 0.5])
      \<and> column_of (create_cv_results
          [Single (Ok 0.7), Single (Ok 0.9), Single (Ok 0.5),
           Single (Ok 0.8), Single (Ok 0.9), Single (Ok 0.5)]
          [p0, p1, p2] 2 (Numeric x) weights) ''rank_test_score'' = Some (RankCol [2, 1, 3])
      \<and> best_of eq1 [p0, p1, p2] (create_cv_results
          [Single (Ok 0.7), Single (Ok 0.9), Single (Ok 0.5),
           Single (Ok 0.8), Single (Ok 0.9), Single (Ok 0.5)]
          [p0, p1, p2] 2 (Numeric x) weights) = Inr p1)
   \<and> (map_of cv_results ''rank_test_score'' = Some (RankCol ranks) \<and>
       i < length ranks \<and> i < length cps \<and> ranks ! i = 1 \<and> (\<forall>j < i. ranks ! j \<noteq> 1) \<longrightarrow>
         get_best_params eq1 cps cv_results = Inr (cps ! i))"
proof (intro conjI impI)
  assume w: "weights = None \<or> (\<exists>w. w \<noteq> 0 \<and> weights = Some [w, w])"
  from scenario_columns [OF w, of p0 p1 p2 x] obtain results where
    r: "create_cv_results
       [Single (Ok 0.7), Single (Ok 0.9), Single (Ok 0.5),
        Single (Ok 0.8), Single (Ok 0.9), Single (Ok 0.5)]
       [p0, p1, p2] 2 (Numeric x) weights = Inr results"
    and m: "map_of results ''mean_test_score'' = Some (FloatCol [0.75, 0.9, 0.5])"
    and k: "map_of results ''rank_test_score'' = Some (RankCol [2, 1, 3])"
    by blast
  show "column_of (create_cv_results
          [Single (Ok 0.7), Single (Ok 0.9), Single (Ok 0.5),
           Single (Ok 0.8), Single (Ok 0.9), Single (Ok 0.5)]
          [p0, p1, p2] 2 (Numeric x) weights) ''mean_test_score'' = Some (FloatCol [0.75, 0.9, 0.5])"
    unfolding column_of_def r using m by simp
  show "column_of (create_cv_results
          [Single (Ok 0.7), Single (Ok 0.9), Single (Ok 0.5),
           Single (Ok 0.8), Single (Ok 0.9), Single (Ok 0.5)]
          [p0, p1, p2] 2 (Numeric x) weights) ''rank_test_score'' = Some (RankCol [2, 1, 3])"
    unfolding column_of_def r using k by simp
  have "get_best_params eq1 [p0, p1, p2] results = Inr ([p0, p1, p2] ! 1)"
    using k by (rule get_best_params_first) (simp_all add: less_Suc_eq)
  then show "best_of eq1 [p0, p1, p2] (create_cv_results
          [Single (Ok 0.7), Single (Ok 0.9), Single (Ok 0.5),
           Single (Ok 0.8), Single (Ok 0.9), Single (Ok 0.5)]
          [p0, p1, p2] 2 (Numeric x) weights) = Inr p1"
    unfolding best_of_def r by simp
next
  assume a: "map_of cv_results ''rank_test_score'' = Some (RankCol ranks) \<and>
       i < length ranks \<and> i < length cps \<and> ranks ! i = 1 \<and> (\<forall>j < i. ranks ! j \<noteq> 1)"
  then have 1: "map_of cv_results ''rank_test_score'' = Some (RankCol ranks)"
    and 2: "i < length ranks" and 3: "i < length cps" and 4: "ranks ! i = 1"
    and 5: "\<And>j. j < i \<Longrightarrow> ranks ! j \<noteq> 1"
    by blast+
  show "get_best_params eq1 cps cv_results = Inr (cps ! i)"
    using 1 2 3 4 5 by (rule get_best_params_first)
qed

theorem best_candidate_scenario_witness:
  "column_of (create_cv_results
      [Single (Ok 0.7), Single (Ok 0.9), Single (Ok 0.5),
       Single (Ok 0.8), Single (Ok 0.9), Single (Ok 0.5)]
      [[(''C'', 1::int)], [(''C'', 10)], [(''C'', 100)]] 2 (Numeric 0) None) ''mean_test_score''
     = Some (FloatCol [0.75, 0.9, 0.5])
   \<and> column_of (create_cv_results
      [Single (Ok 0.7), Single (Ok 0.9), Single (Ok 0.5),
       Single (Ok 0.8), Single (Ok 0.9), Single (Ok 0.5)]
      [[(''C'', 1::int)], [(''C'', 10)], [(''C'', 100)]] 2 (Numeric 0) None) ''rank_test_score''
     = Some (RankCol [2, 1, 3])
   \<and> best_of (\<lambda>v. v = 1) [[(''C'', 1::int)], [(''C'', 10)], [(''C'', 100)]]
       (create_cv_results
          [Single (Ok 0.7), Single (Ok 0.9), Single (Ok 0.5),
           Single (Ok 0.8), Single (Ok 0.9), Single (Ok 0.5)]
          [[(''C'', 1::int)], [(''C'', 10)], [(''C'', 100)]] 2 (Numeric 0) None)
     = Inr [(''C'', 10)]
   \<and> get_best_params (\<lambda>v. v = 1) [[(''C'', 1::int)], [(''C'', 10)], [(''C'', 100)]]
       [(''rank_test_score'', RankCol [2, 1, 1])] = Inr [(''C'', 10)]"
proof -
  have n: "(None :: real list option) = None \<or> (\<exists>w. w \<noteq> 0 \<and> (None :: real list option) = Some [w, w])"
    by simp
  have g: "map_of [(''rank_test_score'', (RankCol [2, 1, 1] :: int column))] ''rank_test_score''
             = Some (RankCol [2, 1, 1]) \<and>
       1 < length [2, 1, 1 :: nat] \<and> 1 < length [[(''C'', 1::int)], [(''C'', 10)], [(''C'', 100)]] \<and>
       [2, 1, 1 :: nat] ! 1 = 1 \<and> (\<forall>j < 1. [2, 1, 1 :: nat] ! j \<noteq> 1)"
    by simp
  from best_candidate_scenario [where weights = None and ?p0.0 = "[(''C'', 1::int)]"
      and ?p1.0 = "[(''C'', 10)]" and ?p2.0 = "[(''C'', 100)]" and x = 0 and ?eq1.0 = "\<lambda>v. v = 1"
      and cv_results = "[(''rank_test_score'', RankCol [2, 1, 1])]" and ranks = "[2, 1, 1]"
      and i = 1 and cps = "[[(''C'', 1::int)], [(''C'', 10)], [(''C'', 100)]]"] n g
  show ?thesis by simp
qed

end
